theory Spec2Isabelle
  imports Main
begin

text \<open>
  A model of the news worker of \<^verbatim>\<open>src/index.ts\<close>: the article aggregator
  (\<^verbatim>\<open>fetchNewsForCategory\<close>), the selection protocol (\<^verbatim>\<open>buildGeminiPrompt\<close>,
  \<^verbatim>\<open>analyzeArticlesWithGemini\<close>), the image resolver (\<^verbatim>\<open>prepareMainImage\<close>), the parts of
  the composition engine that compute (\<^verbatim>\<open>splitHeadlineForHighlighting\<close>,
  \<^verbatim>\<open>getDynamicFontSize\<close>) and the batch loop (\<^verbatim>\<open>processNewsBatch\<close>). The second copy of the
  worker in the repository differs in that it reads its keys and URLs from an
  environment object; the functions modelled here are the same in both.

  Functions that throw return a sum, \<^term>\<open>Inl\<close> holding what is thrown. Calls that leave
  the worker are answered by an explicit world; logging has no effect on any result and
  is left out.
\<close>

section \<open>Strings\<close>

text \<open>
  A JavaScript string is a sequence of code units. It is modelled as a \<^typ>\<open>string\<close>, each
  \<^typ>\<open>char\<close> read as the code unit of the same number (U+0000 to U+00FF); strings with
  higher code units are outside the model. \<^verbatim>\<open>s.length\<close> is \<^const>\<open>length\<close>.
\<close>

definition nl :: string where
  "nl = [CHR 0x0A]"

text \<open>
  \<^verbatim>\<open>String.prototype.trim\<close> removes white space and line terminators from both ends.
  Below U+0100 these are TAB, LF, VT, FF, CR, SPACE and NO-BREAK SPACE.
\<close>

definition isWhiteSpace :: "char \<Rightarrow> bool" where
  "isWhiteSpace c = (of_char c \<in> {9, 10, 11, 12, 13, 32, 160 :: nat})"

definition trimStart :: "string \<Rightarrow> string" where
  "trimStart s = dropWhile isWhiteSpace s"

definition trim :: "string \<Rightarrow> string" where
  "trim s = rev (dropWhile isWhiteSpace (rev (dropWhile isWhiteSpace s)))"

text \<open>
  \<^verbatim>\<open>s.split(c)\<close> for a one-character separator: the pieces between the occurrences of
  \<^verbatim>\<open>c\<close>; the result is never empty (\<^verbatim>\<open>"".split(",")\<close> is \<^verbatim>\<open>[""]\<close>).
\<close>

fun split_on :: "char \<Rightarrow> string \<Rightarrow> string list" where
  "split_on c [] = [[]]"
| "split_on c (x # xs) =
     (let r = split_on c xs in
      if x = c then [] # r else (x # hd r) # tl r)"

text \<open>\<^verbatim>\<open>parts.join(sep)\<close>.\<close>

fun join :: "string \<Rightarrow> string list \<Rightarrow> string" where
  "join sep [] = []"
| "join sep [x] = x"
| "join sep (x # y # ys) = x @ sep @ join sep (y # ys)"

text \<open>
  \<^verbatim>\<open>s.toLowerCase()\<close> on code units below U+0100: A to Z and the letters U+00C0 to
  U+00DE (the multiplication sign U+00D7 apart) move up by 32.
\<close>

definition lowerUnit :: "char \<Rightarrow> char" where
  "lowerUnit c =
     (let n = (of_char c :: nat) in
      if (65 \<le> n \<and> n \<le> 90) \<or> (192 \<le> n \<and> n \<le> 222 \<and> n \<noteq> 215)
      then char_of (n + 32) else c)"

definition toLowerCase :: "string \<Rightarrow> string" where
  "toLowerCase s = map lowerUnit s"

text \<open>
  A value that may be \<^verbatim>\<open>undefined\<close> or \<^verbatim>\<open>null\<close> is an option; \<^verbatim>\<open>ToString\<close> of a
  missing value inside \<^verbatim>\<open>parseInt\<close> is the text \<^verbatim>\<open>undefined\<close>, inside a template
  literal of a \<^verbatim>\<open>null\<close> field it is \<^verbatim>\<open>null\<close>. A string is truthy when it is present
  and not empty.
\<close>

fun truthy :: "string option \<Rightarrow> bool" where
  "truthy None = False"
| "truthy (Some s) = (s \<noteq> [])"

text \<open>
  \<^verbatim>\<open>parseInt(v, 10)\<close>: leading white space is skipped, one sign is read, then the
  longest run of decimal digits; no digit gives \<^verbatim>\<open>NaN\<close>, modelled as \<^const>\<open>None\<close>.
  The value is kept as a mathematical integer; JavaScript rounds it to a double, which
  is the same number below \<^term>\<open>(2::int) ^ 53\<close> and, like the rounded value, no position of
  any array above.
\<close>

definition isDigit :: "char \<Rightarrow> bool" where
  "isDigit c = (48 \<le> (of_char c :: nat) \<and> (of_char c :: nat) \<le> 57)"

definition digitValue :: "char \<Rightarrow> int" where
  "digitValue c = int (of_char c) - 48"

definition digitsValue :: "string \<Rightarrow> int" where
  "digitsValue z = foldl (\<lambda>acc c. 10 * acc + digitValue c) 0 z"

definition parseInt :: "string option \<Rightarrow> int option" where
  "parseInt v =
     (let inputString = (case v of None \<Rightarrow> ''undefined'' | Some s \<Rightarrow> s);
          s = trimStart inputString;
          sign = (if s \<noteq> [] \<and> hd s = CHR ''-'' then - 1 else 1 :: int);
          s' = (if s \<noteq> [] \<and> (hd s = CHR ''+'' \<or> hd s = CHR ''-'') then tl s else s);
          z = takeWhile isDigit s'
      in if z = [] then None else Some (sign * digitsValue z))"

section \<open>Data model\<close>

text \<open>
  The interfaces of \<^verbatim>\<open>src/types.ts\<close>. Of \<^verbatim>\<open>NewsArticle\<close> the fields the worker reads are
  kept (\<^verbatim>\<open>source_priority\<close>, \<^verbatim>\<open>country\<close>, \<^verbatim>\<open>category\<close> and \<^verbatim>\<open>language\<close> are never
  read). The fields of \<^verbatim>\<open>GeminiAnalysisResult\<close> that the parser copies from the reply
  are options: they hold \<^verbatim>\<open>undefined\<close> when the reply has no such key, and
  \<^verbatim>\<open>chosenId\<close> holds \<^verbatim>\<open>NaN\<close> (\<^const>\<open>None\<close>) when \<^verbatim>\<open>parseInt\<close> finds no digit.
\<close>

record NewsArticle =
  article_id :: string
  title :: string
  link :: string
  description :: "string option"
  content :: "string option"
  pubDate :: string
  image_url :: "string option"
  source_id :: string

record NewsCategory =
  name :: string
  apiValue :: string

record GeminiAnalysisResult =
  chosenId :: "int option"
  headline :: "string option"
  highlightWords :: "string list"
  imagePrompt :: "string option"
  caption :: "string option"
  sourceName :: "string option"

record HeadlinePart =
  text' :: string
  highlighted :: bool

text \<open>
  What the code throws: \<^verbatim>\<open>new Error(message)\<close>, the \<^verbatim>\<open>TypeError\<close> of a property read on
  \<^verbatim>\<open>undefined\<close>, the \<^verbatim>\<open>SyntaxError\<close> of an invalid pattern, and the rejection of a
  call to an external service. \<open>OutsideModel\<close> is no exception of the program: it marks
  a run that builds a pattern outside the fragment of the pattern language modelled
  below, and nothing is claimed about such a run.
\<close>

datatype error = Error string | TypeError | SyntaxError | Rejected string | OutsideModel

definition NEWS_CATEGORIES :: "NewsCategory list" where
  "NEWS_CATEGORIES =
     [\<lparr>name = ''Trending'', apiValue = ''top''\<rparr>,
      \<lparr>name = ''Politics'', apiValue = ''politics''\<rparr>,
      \<lparr>name = ''Crime'', apiValue = ''crime''\<rparr>,
      \<lparr>name = ''Entertainment'', apiValue = ''entertainment''\<rparr>,
      \<lparr>name = ''Business/Corporate'', apiValue = ''business''\<rparr>]"

section \<open>The outside world\<close>

text \<open>
  Every call that leaves the worker is answered by the world. One \<open>world\<close> holds the
  answers given while one category is processed.

  \<^item> \<open>fetchNews\<close>: the answer of \<^verbatim>\<open>fetch\<close> to the NewsData request for a category value
    (the URL differs between requests in that value only);
  \<^item> \<open>getTime\<close>: \<^verbatim>\<open>new Date(pubDate).getTime()\<close> (dates that do not parse are outside
    the model);
  \<^item> \<open>generateContent\<close>: the \<^verbatim>\<open>text\<close> of the model's reply to a prompt, or a rejection;
  \<^item> \<open>fetchImage\<close>: the answer of \<^verbatim>\<open>fetch\<close> to an image URL;
  \<^item> \<open>generateImages\<close>: the \<^verbatim>\<open>imageBytes\<close> of the \<^verbatim>\<open>generatedImages\<close> returned for a
    prompt (\<^const>\<open>None\<close> when the field is missing), or a rejection;
  \<^item> \<open>fetchFont\<close>: the answer of \<^verbatim>\<open>fetch\<close> to a font URL;
  \<^item> \<open>render\<close>: satori, resvg and the PNG encoding, from the headline parts, the font
    size and the main image to the final data URL, or a rejection;
  \<^item> \<open>cloudinary\<close>, \<open>makeWebhook\<close>: the answers of the upload and of the webhook.
\<close>

text \<open>
  The body of an answer to a news request is JSON or not; a JSON body is an object, of
  which the \<^verbatim>\<open>results\<close> are read (\<^const>\<open>None\<close> when it has none). An answer carries its
  \<^verbatim>\<open>ok\<close> flag and its \<^verbatim>\<open>statusText\<close>; the answer to an image request carries its \<^verbatim>\<open>ok\<close>
  flag, its status, its content type header and its bytes (\<^const>\<open>None\<close> when reading the
  body fails); any other answer its \<^verbatim>\<open>ok\<close> flag, its status and its body.
\<close>

datatype json_body = NotJson | Json "NewsArticle list option"

datatype news_fetch = FetchRejected | Response bool string json_body

datatype image_fetch = ImageFetchRejected | ImageResponse bool nat "string option" "string option"

datatype http_fetch = HttpRejected | HttpResponse bool nat string

record webhook_payload =
  payload_headline :: "string option"
  payload_imageUrl :: string
  payload_summary :: "string option"
  payload_newsLink :: string
  payload_status :: string

record world =
  fetchNews :: "string \<Rightarrow> news_fetch"
  getTime :: "string \<Rightarrow> int"
  generateContent :: "string \<Rightarrow> error + string"
  fetchImage :: "string \<Rightarrow> image_fetch"
  generateImages :: "string option \<Rightarrow> error + string list option"
  fetchFont :: "string \<Rightarrow> http_fetch"
  render :: "HeadlinePart list \<Rightarrow> nat \<Rightarrow> string \<Rightarrow> error + string"
  cloudinary :: "string \<Rightarrow> http_fetch"
  makeWebhook :: "webhook_payload \<Rightarrow> http_fetch"

section \<open>Article aggregator\<close>

text \<open>\<^verbatim>\<open>fetch(url).then(res => res.json())\<close>: the status of the response is not read.\<close>

fun fetchJson :: "news_fetch \<Rightarrow> error + NewsArticle list option" where
  "fetchJson FetchRejected = Inl (Rejected ''fetch'')"
| "fetchJson (Response ok statusText NotJson) = Inl (Rejected ''json'')"
| "fetchJson (Response ok statusText (Json r)) = Inr r"

text \<open>
  \<^verbatim>\<open>Promise.all\<close>: all the values, or a rejection when one promise rejects. Which
  rejection is reported depends on timing; the model reports the first in list order.
\<close>

fun promise_all :: "(error + 'a) list \<Rightarrow> error + 'a list" where
  "promise_all [] = Inr []"
| "promise_all (Inl e # ps) = Inl e"
| "promise_all (Inr x # ps) =
     (case promise_all ps of Inl e \<Rightarrow> Inl e | Inr xs \<Rightarrow> Inr (x # xs))"

text \<open>\<^verbatim>\<open>r.results || []\<close>.\<close>

fun results_or_empty :: "NewsArticle list option \<Rightarrow> NewsArticle list" where
  "results_or_empty None = []"
| "results_or_empty (Some rs) = rs"

text \<open>
  A JavaScript \<^verbatim>\<open>Map\<close> keeps its entries in insertion order: \<^verbatim>\<open>set\<close> on a key that is
  present replaces the value where the key stands, on a new key it appends.
  \<^verbatim>\<open>new Map(entries)\<close> sets the entries one after the other.
\<close>

fun map_set :: "('k \<times> 'v) list \<Rightarrow> 'k \<Rightarrow> 'v \<Rightarrow> ('k \<times> 'v) list" where
  "map_set [] k v = [(k, v)]"
| "map_set ((k', v') # m) k v =
     (if k' = k then (k', v) # m else (k', v') # map_set m k v)"

definition new_Map :: "('k \<times> 'v) list \<Rightarrow> ('k \<times> 'v) list" where
  "new_Map entries = foldl (\<lambda>m (k, v). map_set m k v) [] entries"

definition map_values :: "('k \<times> 'v) list \<Rightarrow> 'v list" where
  "map_values m = map snd m"

text \<open>\<^verbatim>\<open>Array.from(new Map(allArticles.map(a => [a.link, a])).values())\<close>.\<close>

definition uniqueArticles :: "NewsArticle list \<Rightarrow> NewsArticle list" where
  "uniqueArticles allArticles = map_values (new_Map (map (\<lambda>a. (link a, a)) allArticles))"

text \<open>
  The sort is stable and the comparator orders by time, latest first; \<^const>\<open>sort_key\<close> is
  a stable sort.
\<close>

definition aggregate :: "world \<Rightarrow> NewsArticle list option list \<Rightarrow> NewsArticle list" where
  "aggregate w responses =
     (let allArticles = concat (map results_or_empty responses);
          sorted = sort_key (\<lambda>a. - getTime w (pubDate a)) (uniqueArticles allArticles)
      in take 10 sorted)"

definition isValidArticle :: "NewsArticle \<Rightarrow> bool" where
  "isValidArticle a = (truthy (image_url a) \<and> (truthy (content a) \<or> truthy (description a)))"

definition fetchRawArticles :: "world \<Rightarrow> NewsCategory \<Rightarrow> error + NewsArticle list" where
  "fetchRawArticles w category =
     (if apiValue category = ''top'' then
        (let otherCategories = map apiValue (filter (\<lambda>c. apiValue c \<noteq> ''top'') NEWS_CATEGORIES);
             promises = map (\<lambda>cat. fetchJson (fetchNews w cat)) otherCategories
         in case promise_all promises of
              Inl e \<Rightarrow> Inl e
            | Inr responses \<Rightarrow> Inr (aggregate w responses))
      else
        (case fetchNews w (apiValue category) of
           FetchRejected \<Rightarrow> Inl (Rejected ''fetch'')
         | Response ok statusText body \<Rightarrow>
             if \<not> ok then Inl (Error (''NewsData API request failed: '' @ statusText))
             else (case body of
                     NotJson \<Rightarrow> Inl (Rejected ''json'')
                   | Json r \<Rightarrow> Inr (results_or_empty r))))"

definition fetchNewsForCategory ::
  "world \<Rightarrow> NewsCategory \<Rightarrow> string set \<Rightarrow> error + NewsArticle list" where
  "fetchNewsForCategory w category usedUrls =
     (case fetchRawArticles w category of
        Inl e \<Rightarrow> Inl e
      | Inr rawArticles \<Rightarrow>
          (let validArticles = filter isValidArticle rawArticles;
               unusedArticles = filter (\<lambda>a. link a \<notin> usedUrls) validArticles
           in Inr unusedArticles))"

section \<open>Selection protocol\<close>

subsection \<open>The prompt\<close>

text \<open>The decimal numeral of a number, as a template literal prints it.\<close>

fun show_nat :: "nat \<Rightarrow> string" where
  "show_nat n =
     (if n < 10 then [char_of (48 + n)]
      else show_nat (n div 10) @ [char_of (48 + n mod 10)])"

text \<open>\<^verbatim>\<open>article.content || article.description\<close>, as the template literal prints it.\<close>

definition contentOrDescription :: "NewsArticle \<Rightarrow> string" where
  "contentOrDescription a =
     (if truthy (content a) then (case content a of Some c \<Rightarrow> c | None \<Rightarrow> [])
      else (case description a of Some d \<Rightarrow> d | None \<Rightarrow> ''null''))"

definition articleEntry :: "NewsArticle \<Rightarrow> nat \<Rightarrow> string" where
  "articleEntry article index =
     ''ARTICLE '' @ show_nat (index + 1) @ '':'' @ nl @
     ''ID: '' @ show_nat (index + 1) @ nl @
     ''Title: '' @ title article @ nl @
     ''Content: '' @ contentOrDescription article @ nl @
     ''Source: '' @ source_id article @ nl @
     ''---''"

text \<open>\<^verbatim>\<open>xs.map((x, index) => f(x, index))\<close>, the index counted from \<open>i\<close>.\<close>

fun map_index :: "('a \<Rightarrow> nat \<Rightarrow> 'b) \<Rightarrow> nat \<Rightarrow> 'a list \<Rightarrow> 'b list" where
  "map_index f i [] = []"
| "map_index f i (x # xs) = f x i # map_index f (Suc i) xs"

definition articlesString :: "NewsArticle list \<Rightarrow> string" where
  "articlesString articles = join nl (map_index articleEntry 0 articles)"

text \<open>The fixed text of the prompt before and after the list of articles.\<close>

definition PROMPT_INSTRUCTIONS :: string where
  \<open>PROMPT_INSTRUCTIONS =
     nl @
     ''You are an expert news editor for a Bangladeshi social media channel. '' @
     ''Your goal is to find the single most important, impactful, and relevan'' @
     ''t story for your audience from a list of recent articles.'' @
     nl @
     nl @
     ''**Your First Task: Select the Best Article**'' @
     nl @
     ''- You will be given a list of news articles.'' @
     nl @
     ''- Review all articles and select the ONE that is most newsworthy and D'' @
     ''IRECTLY about Bangladesh.'' @
     nl @
     ''- **CRITICAL RULE:** The article's main subject MUST be Bangladesh. Ne'' @
     ''ws about other countries (e.g., India) is NOT relevant unless Banglade'' @
     ''sh or a Bangladeshi entity is a primary subject of the article (e.g., '' @
     ''a bilateral agreement). An article about Indian politics is irrelevant'' @
     ''. Be extremely strict.'' @
     nl @
     ''- If NONE of the articles meet this strict criteria, you MUST respond '' @
     ''with ONLY the single word: IRRELEVANT.'' @
     nl @
     nl @
     ''**If you find a suitable article, proceed to Your Second Task:**'' @
     nl @
     ''- Identify the article you chose by its ID.'' @
     nl @
     ''- Perform a full analysis on ONLY that chosen article.'' @
     nl @
     nl @
     ''**Analysis Steps:**'' @
     nl @
     ''**1. Headline Generation (IMPACT Principle):** Informative, Main Point'' @
     '', Prompting Curiosity, Active Voice, Concise, Targeted.'' @
     nl @
     ''**2. Highlight Phrase Identification:** Identify key phrases from your'' @
     '' new headline that capture critical information (entities, key terms, '' @
     ''numbers). List these exact phrases, separated by commas.'' @
     nl @
     ''**3. Image Prompt Generation (SCAT Principle & Safety):** Generate a c'' @
     ''oncise, descriptive prompt for an AI image generator. The prompt MUST '' @
     ''be safe for work and MUST NOT contain depictions of specific people (e'' @
     ''specially political figures), violence, conflict, or other sensitive t'' @
     ''opics. Instead, focus on symbolic, abstract, or neutral representation'' @
     ''s of the news. For example, for a political story, prompt "Gavel on a '' @
     ''table with a Bangladeshi flag in the background" instead of showing po'' @
     ''liticians. The prompt should follow the SCAT principle (Subject, Conte'' @
     ''xt, Atmosphere, Type).'' @
     nl @
     ''**4. Caption & Source:** Create a social media caption (~50 words) wit'' @
     ''h 3-5 relevant hashtags.'' @
     nl @
     nl @
     ''**List of Articles to Analyze:**'' @
     nl\<close>

definition PROMPT_OUTPUT_FORMAT :: string where
  \<open>PROMPT_OUTPUT_FORMAT =
     nl @
     nl @
     ''**Output Format (Strict):**'' @
     nl @
     ''- If no article is relevant, respond ONLY with: IRRELEVANT'' @
     nl @
     ''- If you find a relevant article, respond ONLY with the following form'' @
     ''at. Do not add any other text or formatting. Each field must be on a n'' @
     ''ew line.'' @
     nl @
     nl @
     ''CHOSEN_ID: [The ID number of the article you selected]'' @
     nl @
     ''HEADLINE: [Your generated headline for the chosen article]'' @
     nl @
     ''HIGHLIGHT_WORDS: [phrase 1, phrase 2]'' @
     nl @
     ''IMAGE_PROMPT: [Your generated image prompt]'' @
     nl @
     ''CAPTION: [Your generated caption. Crucially, DO NOT include the source'' @
     '' name in the caption.]'' @
     nl @
     ''SOURCE_NAME: [The source name (e.g., 'thedailystar') from the chosen a'' @
     ''rticle. This is a mandatory and separate field.]'' @
     nl @
     ''    ''\<close>

definition buildGeminiPrompt :: "NewsArticle list \<Rightarrow> string" where
  "buildGeminiPrompt articles =
     PROMPT_INSTRUCTIONS @ articlesString articles @ PROMPT_OUTPUT_FORMAT"

subsection \<open>The reply\<close>

text \<open>
  The \<^verbatim>\<open>data\<close> object is a map from keys to values. (A key \<^verbatim>\<open>__proto__\<close> leaves a
  JavaScript object unchanged and no key read below is inherited, so the six keys that
  are read have the value the map gives.)
\<close>

definition parseLine :: "(string \<rightharpoonup> string) \<Rightarrow> string \<Rightarrow> (string \<rightharpoonup> string)" where
  "parseLine data line =
     (let parts = split_on (CHR '':'') line;
          key = hd parts;
          valueParts = tl parts
      in if key \<noteq> [] \<and> valueParts \<noteq> []
         then data(trim key \<mapsto> trim (join '':'' valueParts))
         else data)"

definition parseData :: "string \<Rightarrow> (string \<rightharpoonup> string)" where
  "parseData txt = foldl parseLine Map.empty (map trim (split_on (CHR 0x0A) txt))"

text \<open>
  The \<^verbatim>\<open>try\<close> block. The one expression in it that can throw is
  \<^verbatim>\<open>data['HIGHLIGHT_WORDS'].split(',')\<close>, when the key is missing; the \<^verbatim>\<open>catch\<close> turns
  that into the parse error.
\<close>

definition parseReply :: "string \<Rightarrow> error + GeminiAnalysisResult" where
  "parseReply txt =
     (let data = parseData txt in
      case data ''HIGHLIGHT_WORDS'' of
        None \<Rightarrow> Inl (Error (''Failed to parse Gemini response: '' @ txt))
      | Some hw \<Rightarrow>
          Inr \<lparr>chosenId = parseInt (data ''CHOSEN_ID''),
               headline = data ''HEADLINE'',
               highlightWords = map trim (split_on (CHR '','') hw),
               imagePrompt = data ''IMAGE_PROMPT'',
               caption = data ''CAPTION'',
               sourceName = data ''SOURCE_NAME''\<rparr>)"

text \<open>
  \<^verbatim>\<open>analyzeArticlesWithGemini\<close>: \<^const>\<open>None\<close> is the \<^verbatim>\<open>null\<close> returned for the sentinel.
\<close>

definition analyzeArticlesWithGemini ::
  "world \<Rightarrow> NewsArticle list \<Rightarrow> error + GeminiAnalysisResult option" where
  "analyzeArticlesWithGemini w articles =
     (case generateContent w (buildGeminiPrompt articles) of
        Inl e \<Rightarrow> Inl e
      | Inr raw \<Rightarrow>
          (let txt = trim raw in
           if txt = ''IRRELEVANT'' then Inr None
           else (case parseReply txt of Inl e \<Rightarrow> Inl e | Inr r \<Rightarrow> Inr (Some r))))"

text \<open>
  \<^verbatim>\<open>articles[analysisResult.chosenId - 1]\<close>: the element when the index is a position of
  the array, \<^verbatim>\<open>undefined\<close> otherwise (also for \<^verbatim>\<open>NaN\<close>).
\<close>

definition chosenArticle :: "NewsArticle list \<Rightarrow> int option \<Rightarrow> NewsArticle option" where
  "chosenArticle articles cid =
     (case cid of
        None \<Rightarrow> None
      | Some k \<Rightarrow>
          if 1 \<le> k \<and> k \<le> int (length articles) then Some (articles ! nat (k - 1))
          else None)"

section \<open>Composition engine: regular expressions\<close>

text \<open>
  \<^verbatim>\<open>splitHeadlineForHighlighting\<close> builds a pattern from the highlight phrases and splits
  the headline with it. The fragment of the pattern language modelled here has pattern
  characters, alternation and capturing groups; a pattern with any other syntax character
  (\<^verbatim>\<open>^ $ \ . * + ? [ ] { }\<close>) is outside the fragment. Groups are numbered by their opening
  parentheses, from 1.
\<close>

datatype regex = Eps | Chr char | Seq regex regex | Alt regex regex | Grp nat regex

datatype compiled = Pattern regex nat | InvalidPattern | OutsideFragment

fun alternative :: "regex list \<Rightarrow> regex" where
  "alternative [] = Eps"
| "alternative (t # ts) = Seq t (alternative ts)"

fun disjunction :: "regex list \<Rightarrow> regex" where
  "disjunction [] = Eps"
| "disjunction [a] = a"
| "disjunction (a # b # bs) = Alt a (disjunction (b # bs))"

definition isOtherSyntaxCharacter :: "char \<Rightarrow> bool" where
  "isOtherSyntaxCharacter c = (c \<in> set (CHR 0x5C # ''^$.*+?[]{}''))"

text \<open>
  The parser reads the pattern once. \<open>alts\<close> are the finished alternatives of the
  disjunction being read and \<open>terms\<close> the terms of its current alternative; the stack
  holds the same for each enclosing group, with the number of that group; \<open>n\<close> counts
  the groups opened so far. A closing parenthesis with no group open and the end of the
  pattern inside a group are syntax errors.
\<close>

fun parse_pattern ::
  "string \<Rightarrow> (regex list \<times> regex list \<times> nat) list \<Rightarrow> regex list \<Rightarrow> regex list \<Rightarrow> nat
     \<Rightarrow> compiled" where
  "parse_pattern [] stack alts terms n =
     (if stack = [] then Pattern (disjunction (alts @ [alternative terms])) n
      else InvalidPattern)"
| "parse_pattern (c # cs) stack alts terms n =
     (if c = CHR ''('' then parse_pattern cs ((alts, terms, Suc n) # stack) [] [] (Suc n)
      else if c = CHR '')'' then
        (case stack of
           [] \<Rightarrow> InvalidPattern
         | (alts0, terms0, k) # stack' \<Rightarrow>
             parse_pattern cs stack' alts0
               (terms0 @ [Grp k (disjunction (alts @ [alternative terms]))]) n)
      else if c = CHR ''|'' then parse_pattern cs stack (alts @ [alternative terms]) [] n
      else if isOtherSyntaxCharacter c then OutsideFragment
      else parse_pattern cs stack alts (terms @ [Chr c]) n)"

definition new_RegExp :: "string \<Rightarrow> compiled" where
  "new_RegExp pattern = parse_pattern pattern [] [] [] 0"

text \<open>
  With the flag \<^verbatim>\<open>i\<close> two code units match when their canonical forms are equal; below
  U+0100 the canonical form of a to z and of U+00E0 to U+00FE (the division sign U+00F7
  apart) is the code unit 32 below, every other code unit is matched by itself only.
\<close>

definition canonicalize :: "char \<Rightarrow> char" where
  "canonicalize c =
     (let n = (of_char c :: nat) in
      if (97 \<le> n \<and> n \<le> 122) \<or> (224 \<le> n \<and> n \<le> 254 \<and> n \<noteq> 247)
      then char_of (n - 32) else c)"

definition substring :: "string \<Rightarrow> nat \<Rightarrow> nat \<Rightarrow> string" where
  "substring s p q = take (q - p) (drop p s)"

text \<open>
  The matcher lists, in the order in which backtracking tries them, the ways in which a
  pattern matches \<open>s\<close> from position \<open>i\<close>: each is the end position with the captures
  (\<^const>\<open>None\<close> for a group that took no part). The match that \<^verbatim>\<open>exec\<close> reports is the first.
\<close>

type_synonym captures = "string option list"

fun matches :: "regex \<Rightarrow> string \<Rightarrow> nat \<Rightarrow> captures \<Rightarrow> (nat \<times> captures) list" where
  "matches Eps s i caps = [(i, caps)]"
| "matches (Chr c) s i caps =
     (if i < length s \<and> canonicalize (s ! i) = canonicalize c then [(Suc i, caps)] else [])"
| "matches (Seq a b) s i caps =
     concat (map (\<lambda>(j, caps'). matches b s j caps') (matches a s i caps))"
| "matches (Alt a b) s i caps = matches a s i caps @ matches b s i caps"
| "matches (Grp k a) s i caps =
     map (\<lambda>(j, caps'). (j, caps'[k - 1 := Some (substring s i j)])) (matches a s i caps)"

text \<open>A match that starts at position \<open>q\<close> exactly (the splitter is sticky).\<close>

definition exec_at :: "regex \<Rightarrow> nat \<Rightarrow> string \<Rightarrow> nat \<Rightarrow> (nat \<times> captures) option" where
  "exec_at r n s q =
     (case matches r s q (replicate n None) of [] \<Rightarrow> None | m # _ \<Rightarrow> Some m)"

lemma matches_end: "(e, caps') \<in> set (matches r s i caps) \<Longrightarrow> i \<le> e"
proof (induction r arbitrary: i caps e caps')
  case (Seq a b)
  then obtain j c where "(j, c) \<in> set (matches a s i caps)" "(e, caps') \<in> set (matches b s j c)"
    by auto
  with Seq.IH show ?case by (meson le_trans)
qed (auto split: if_splits)

lemma exec_at_end:
  assumes "exec_at r n s q = Some (e, caps)"
  shows "q \<le> e"
proof -
  from assms have "(e, caps) \<in> set (matches r s q (replicate n None))"
    by (auto simp: exec_at_def split: list.splits)
  then show ?thesis by (rule matches_end)
qed

text \<open>
  \<^verbatim>\<open>s.split(regex)\<close>, the loop of \<^verbatim>\<open>RegExp.prototype[Symbol.split]\<close>: \<open>p\<close> is the end of the
  last separator and \<open>q\<close> the position tried. A match at \<open>q\<close> that ends at \<open>p\<close> is skipped;
  any other match adds the piece before it and then its captures.
\<close>

function split_loop :: "regex \<Rightarrow> nat \<Rightarrow> string \<Rightarrow> nat \<Rightarrow> nat \<Rightarrow> string option list" where
  "split_loop r n s p q =
     (if q < length s then
        (case exec_at r n s q of
           None \<Rightarrow> split_loop r n s p (Suc q)
         | Some (e0, caps) \<Rightarrow>
             (let e = min e0 (length s) in
              if e = p then split_loop r n s p (Suc q)
              else Some (substring s p q) # caps @ split_loop r n s e e))
      else [Some (substring s p (length s))])"
  by pat_completeness auto
termination
proof (relation "measures [\<lambda>(r, n, s, p, q). length s - q, \<lambda>(r, n, s, p, q). if p = q then 0 else 1]",
    goal_cases)
  case (4 r n s p q x2 e0 caps e)
  then have "q \<le> e0" by (auto dest: exec_at_end)
  with 4 show ?case by (auto simp: min_def split: if_splits)
qed auto

definition regex_split :: "regex \<Rightarrow> nat \<Rightarrow> string \<Rightarrow> string option list" where
  "regex_split r n s =
     (if s = [] then (case exec_at r n s 0 of Some m \<Rightarrow> [] | None \<Rightarrow> [Some s])
      else split_loop r n s 0 0)"

section \<open>Composition engine: headline segmentation\<close>

text \<open>\<^verbatim>\<open>parts.filter(part => part)\<close> drops the undefined and the empty pieces.\<close>

definition truthy_parts :: "string option list \<Rightarrow> string list" where
  "truthy_parts ps = List.map_filter (\<lambda>part. if truthy part then part else None) ps"

text \<open>
  \<^verbatim>\<open>splitHeadlineForHighlighting\<close>. An array from the parser is never \<^verbatim>\<open>null\<close>, so
  \<^verbatim>\<open>!highlightWords\<close> is false.
\<close>

definition highlightPattern :: "string list \<Rightarrow> compiled" where
  "highlightPattern hws = new_RegExp (''('' @ join ''|'' hws @ '')'')"

definition splitHeadlineForHighlighting :: "string \<Rightarrow> string list \<Rightarrow> error + HeadlinePart list" where
  "splitHeadlineForHighlighting hl hws =
     (if hws = [] \<or> hd hws = [] then Inr [\<lparr>text' = hl, highlighted = False\<rparr>]
      else
        (case highlightPattern hws of
           InvalidPattern \<Rightarrow> Inl SyntaxError
         | OutsideFragment \<Rightarrow> Inl OutsideModel
         | Pattern r n \<Rightarrow>
             Inr (map (\<lambda>part. \<lparr>text' = part,
                               highlighted = list_ex (\<lambda>h. toLowerCase h = toLowerCase part) hws\<rparr>)
                    (truthy_parts (regex_split r n hl)))))"

text \<open>
  Patterns without a group of their own, and phrases that bring no group and no syntax
  character outside the fragment into the pattern.
\<close>

fun group_free :: "regex \<Rightarrow> bool" where
  "group_free Eps = True"
| "group_free (Chr c) = True"
| "group_free (Seq a b) = (group_free a \<and> group_free b)"
| "group_free (Alt a b) = (group_free a \<and> group_free b)"
| "group_free (Grp k a) = False"

definition plain_phrase :: "string \<Rightarrow> bool" where
  "plain_phrase h = list_all (\<lambda>c. c \<noteq> CHR ''('' \<and> c \<noteq> CHR '')'' \<and> \<not> isOtherSyntaxCharacter c) h"

section \<open>Composition engine: dynamic font sizing\<close>

text \<open>\<^verbatim>\<open>getDynamicFontSize\<close>.\<close>

definition getDynamicFontSize :: "string \<Rightarrow> nat" where
  "getDynamicFontSize hl =
     (let len = length hl in
      if len \<le> 50 then 72
      else if len \<le> 80 then 64
      else if len \<le> 120 then 56
      else if len \<le> 160 then 48
      else 40)"

section \<open>Image resolver\<close>

text \<open>
  \<^verbatim>\<open>btoa\<close>, the base64 encoding of a string of bytes: three bytes give four digits of six
  bits, and a last group of one or two bytes is padded with \<^verbatim>\<open>=\<close>.
\<close>

definition base64Digit :: "nat \<Rightarrow> char" where
  "base64Digit n =
     ''ABCDEFGHIJKLMNOPQRSTUVWXYZabcdefghijklmnopqrstuvwxyz0123456789+/'' ! (n mod 64)"

fun base64 :: "nat list \<Rightarrow> string" where
  "base64 [] = []"
| "base64 [a] = [base64Digit (a div 4), base64Digit (a mod 4 * 16), CHR ''='', CHR ''='']"
| "base64 [a, b] =
     [base64Digit (a div 4), base64Digit (a mod 4 * 16 + b div 16),
      base64Digit (b mod 16 * 4), CHR ''='']"
| "base64 (a # b # c # rest) =
     [base64Digit (a div 4), base64Digit (a mod 4 * 16 + b div 16),
      base64Digit (b mod 16 * 4 + c div 64), base64Digit (c mod 64)] @ base64 rest"

definition btoa :: "string \<Rightarrow> string" where
  "btoa binary = base64 (map of_char binary)"

text \<open>
  \<^verbatim>\<open>prepareMainImage\<close>. \<open>generateMainImage\<close> is the part after the \<^verbatim>\<open>try\<close>: a rejection of
  the generation call is thrown on, the first generated image is returned, and no image
  gives \<^verbatim>\<open>null\<close> (\<^const>\<open>None\<close>). Everything thrown inside the \<^verbatim>\<open>try\<close> (by the fetch or by
  reading the body) is caught and leads to the generation, as a response that is not
  \<^verbatim>\<open>ok\<close> does.
\<close>

definition generateMainImage :: "world \<Rightarrow> string option \<Rightarrow> error + string option" where
  "generateMainImage w geminiPrompt =
     (case generateImages w geminiPrompt of
        Inl e \<Rightarrow> Inl e
      | Inr None \<Rightarrow> Inr None
      | Inr (Some []) \<Rightarrow> Inr None
      | Inr (Some (imageBytes # rest)) \<Rightarrow> Inr (Some (''data:image/png;base64,'' @ imageBytes)))"

definition prepareMainImage :: "world \<Rightarrow> NewsArticle \<Rightarrow> string option \<Rightarrow> error + string option" where
  "prepareMainImage w article geminiPrompt =
     (if truthy (image_url article) then
        (case fetchImage w (case image_url article of Some u \<Rightarrow> u | None \<Rightarrow> []) of
           ImageFetchRejected \<Rightarrow> generateMainImage w geminiPrompt
         | ImageResponse ok status contentType body \<Rightarrow>
             if ok then
               (case body of
                  None \<Rightarrow> generateMainImage w geminiPrompt
                | Some bytes \<Rightarrow>
                    (let base64Image = btoa bytes;
                         mimeType = (if truthy contentType
                                     then (case contentType of Some t \<Rightarrow> t | None \<Rightarrow> [])
                                     else ''image/png'')
                     in Inr (Some (''data:'' @ mimeType @ '';base64,'' @ base64Image))))
             else generateMainImage w geminiPrompt)
      else generateMainImage w geminiPrompt)"

section \<open>Composition and publication\<close>

text \<open>\<^verbatim>\<open>getFontData\<close>; the body of an \<^verbatim>\<open>ok\<close> response is the font.\<close>

definition getFontData :: "world \<Rightarrow> string \<Rightarrow> error + string" where
  "getFontData w url =
     (case fetchFont w url of
        HttpRejected \<Rightarrow> Inl (Rejected ''fetch'')
      | HttpResponse ok status body \<Rightarrow>
          if \<not> ok then Inl (Error (''Failed to fetch font: '' @ url)) else Inr body)"

text \<open>
  \<^verbatim>\<open>composeFinalImage\<close>: the three fonts are fetched one after the other, the headline is
  segmented and sized, and the element tree is handed to the renderer. With a headline
  that is \<^verbatim>\<open>undefined\<close> the segmentation builds its pattern and then throws the
  \<^verbatim>\<open>TypeError\<close> of \<^verbatim>\<open>headline.split\<close>; when the highlight list is empty or starts with the
  empty string it returns, and \<^verbatim>\<open>headline.length\<close> throws the \<^verbatim>\<open>TypeError\<close>.
\<close>

definition splitUndefinedHeadline :: "string list \<Rightarrow> error" where
  "splitUndefinedHeadline hws =
     (if hws = [] \<or> hd hws = [] then TypeError
      else
        (case highlightPattern hws of
           InvalidPattern \<Rightarrow> SyntaxError
         | OutsideFragment \<Rightarrow> OutsideModel
         | Pattern r n \<Rightarrow> TypeError))"

definition composeFinalImage :: "world \<Rightarrow> GeminiAnalysisResult \<Rightarrow> string \<Rightarrow> error + string" where
  "composeFinalImage w analysis mainImageSrc =
     (case getFontData w ''https://fonts.gstatic.com/s/poppins/v21/pxiEyp8kv8JHgFVrJJbecnFHGPezSQ.woff2'' of
        Inl e \<Rightarrow> Inl e
      | Inr poppinsRegular \<Rightarrow>
     (case getFontData w ''https://fonts.gstatic.com/s/poppins/v21/pxiByp8kv8JHgFVrLBT5Z1xlFQ.woff2'' of
        Inl e \<Rightarrow> Inl e
      | Inr poppinsBold \<Rightarrow>
     (case getFontData w ''https://fonts.gstatic.com/s/inter/v13/UcC73FwrK3iLTeHuS_fvQtMwCp50KnMa1ZL7.woff2'' of
        Inl e \<Rightarrow> Inl e
      | Inr interSemiBold \<Rightarrow>
     (case headline analysis of
        None \<Rightarrow> Inl (splitUndefinedHeadline (highlightWords analysis))
      | Some hl \<Rightarrow>
     (case splitHeadlineForHighlighting hl (highlightWords analysis) of
        Inl e \<Rightarrow> Inl e
      | Inr headlineParts \<Rightarrow>
          render w headlineParts (getDynamicFontSize hl) mainImageSrc)))))"

text \<open>
  \<^verbatim>\<open>uploadToCloudinary\<close> and \<^verbatim>\<open>sendToWebhook\<close>; the body of an \<^verbatim>\<open>ok\<close> answer to the upload
  stands for its \<^verbatim>\<open>secure_url\<close>.
\<close>

definition uploadToCloudinary :: "world \<Rightarrow> string \<Rightarrow> error + string" where
  "uploadToCloudinary w imageBase64 =
     (case cloudinary w imageBase64 of
        HttpRejected \<Rightarrow> Inl (Rejected ''fetch'')
      | HttpResponse ok status body \<Rightarrow>
          if \<not> ok then Inl (Error (''Cloudinary upload failed: '' @ show_nat status @ '' '' @ body))
          else Inr body)"

definition sendToWebhook ::
  "world \<Rightarrow> GeminiAnalysisResult \<Rightarrow> string \<Rightarrow> NewsArticle \<Rightarrow> error + unit" where
  "sendToWebhook w analysis imageUrl article =
     (case makeWebhook w \<lparr>payload_headline = headline analysis, payload_imageUrl = imageUrl,
                           payload_summary = caption analysis, payload_newsLink = link article,
                           payload_status = ''Queue''\<rparr> of
        HttpRejected \<Rightarrow> Inl (Rejected ''fetch'')
      | HttpResponse ok status body \<Rightarrow>
          if \<not> ok then Inl (Error (''Webhook failed: '' @ show_nat status @ '' '' @ body))
          else Inr ())"

section \<open>Batch orchestrator\<close>

text \<open>
  One pass of the loop of \<^verbatim>\<open>processNewsBatch\<close> over a category. Its result records what
  the pass did: the candidates that \<^verbatim>\<open>fetchNewsForCategory\<close> returned (none when it
  threw), how the pass ended, and the set \<^verbatim>\<open>usedArticleUrls\<close> after it. The outcomes are
  the three \<^verbatim>\<open>continue\<close> statements, the \<^verbatim>\<open>catch\<close> and the end of the \<^verbatim>\<open>try\<close> block;
  from the selection on they carry the link of the chosen article.
\<close>

datatype outcome =
    NoArticles
  | NoRelevantArticle
  | NoMainImage string
  | Posted string string
  | Failed error
  | FailedAfterChoice string error

record pass =
  candidates :: "NewsArticle list"
  result :: outcome
  usedAfter :: "string set"

definition publishChosen ::
  "world \<Rightarrow> GeminiAnalysisResult \<Rightarrow> NewsArticle \<Rightarrow> outcome" where
  "publishChosen w analysisResult chosen =
     (case prepareMainImage w chosen (imagePrompt analysisResult) of
        Inl e \<Rightarrow> FailedAfterChoice (link chosen) e
      | Inr None \<Rightarrow> NoMainImage (link chosen)
      | Inr (Some mainImageSrc) \<Rightarrow>
     (case composeFinalImage w analysisResult mainImageSrc of
        Inl e \<Rightarrow> FailedAfterChoice (link chosen) e
      | Inr finalImageBase64 \<Rightarrow>
     (case uploadToCloudinary w finalImageBase64 of
        Inl e \<Rightarrow> FailedAfterChoice (link chosen) e
      | Inr cloudinaryUrl \<Rightarrow>
     (case sendToWebhook w analysisResult cloudinaryUrl chosen of
        Inl e \<Rightarrow> FailedAfterChoice (link chosen) e
      | Inr u \<Rightarrow> Posted (link chosen) cloudinaryUrl))))"

definition processCategory :: "world \<Rightarrow> string set \<Rightarrow> NewsCategory \<Rightarrow> pass" where
  "processCategory w usedArticleUrls category =
     (case fetchNewsForCategory w category usedArticleUrls of
        Inl e \<Rightarrow> \<lparr>candidates = [], result = Failed e, usedAfter = usedArticleUrls\<rparr>
      | Inr articles \<Rightarrow>
          if articles = [] then
            \<lparr>candidates = articles, result = NoArticles, usedAfter = usedArticleUrls\<rparr>
          else
            (case analyzeArticlesWithGemini w articles of
               Inl e \<Rightarrow> \<lparr>candidates = articles, result = Failed e, usedAfter = usedArticleUrls\<rparr>
             | Inr None \<Rightarrow>
                 \<lparr>candidates = articles, result = NoRelevantArticle, usedAfter = usedArticleUrls\<rparr>
             | Inr (Some analysisResult) \<Rightarrow>
                 (case chosenArticle articles (chosenId analysisResult) of
                    None \<Rightarrow>
                      \<lparr>candidates = articles, result = Failed TypeError,
                       usedAfter = usedArticleUrls\<rparr>
                  | Some chosen \<Rightarrow>
                      \<lparr>candidates = articles,
                       result = publishChosen w analysisResult chosen,
                       usedAfter = insert (link chosen) usedArticleUrls\<rparr>)))"

text \<open>
  The loop: each category is processed in the world current at its turn, with the set
  left by the categories before it. The run is listed as the set each pass started from,
  with the pass.
\<close>

fun processCategories ::
  "(NewsCategory \<Rightarrow> world) \<Rightarrow> string set \<Rightarrow> NewsCategory list \<Rightarrow> (string set \<times> pass) list" where
  "processCategories worlds usedArticleUrls [] = []"
| "processCategories worlds usedArticleUrls (category # rest) =
     (let p = processCategory (worlds category) usedArticleUrls category
      in (usedArticleUrls, p) # processCategories worlds (usedAfter p) rest)"

definition processNewsBatch :: "(NewsCategory \<Rightarrow> world) \<Rightarrow> (string set \<times> pass) list" where
  "processNewsBatch worlds = processCategories worlds {} NEWS_CATEGORIES"

text \<open>The link of the article a pass chose, if it chose one.\<close>

fun chosenLink :: "outcome \<Rightarrow> string option" where
  "chosenLink NoArticles = None"
| "chosenLink NoRelevantArticle = None"
| "chosenLink (NoMainImage l) = Some l"
| "chosenLink (Posted l u) = Some l"
| "chosenLink (Failed e) = None"
| "chosenLink (FailedAfterChoice l e) = Some l"

text \<open>The links chosen in a run, in the order of the passes.\<close>

definition chosenLinks :: "(string set \<times> pass) list \<Rightarrow> string list" where
  "chosenLinks run = List.map_filter (\<lambda>(u, p). chosenLink (result p)) run"

section \<open>Example data\<close>

text \<open>Articles and a world in which every external call fails, for the concrete runs below.\<close>

definition example_article :: "string \<Rightarrow> string \<Rightarrow> string \<Rightarrow> NewsArticle" where
  "example_article i t l =
     \<lparr>article_id = i, title = t, link = l, description = Some ''Some description'',
      content = None, pubDate = ''2025-07-29 10:00:00'',
      image_url = Some ''https://img.example/1.png'', source_id = ''thedailystar''\<rparr>"

definition failing_world :: world where
  "failing_world =
     \<lparr>fetchNews = (\<lambda>cat. FetchRejected),
      getTime = (\<lambda>d. 0),
      generateContent = (\<lambda>prompt. Inl (Rejected ''generateContent'')),
      fetchImage = (\<lambda>url. ImageFetchRejected),
      generateImages = (\<lambda>prompt. Inl (Rejected ''generateImages'')),
      fetchFont = (\<lambda>url. HttpRejected),
      render = (\<lambda>parts fontSize src. Inl (Rejected ''render'')),
      cloudinary = (\<lambda>img. HttpRejected),
      makeWebhook = (\<lambda>payload. HttpRejected)\<rparr>"

definition first_seen :: NewsArticle where
  "first_seen = example_article ''a1'' ''Budget passed'' ''https://news.example/budget''"

definition seen_again :: NewsArticle where
  "seen_again = example_article ''a2'' ''Budget passed (updated)'' ''https://news.example/budget''"

definition other_article :: NewsArticle where
  "other_article = example_article ''a3'' ''Port expansion begins'' ''https://news.example/port''"

definition politics :: NewsCategory where
  "politics = \<lparr>name = ''Politics'', apiValue = ''politics''\<rparr>"

definition sentinel_world :: world where
  "sentinel_world =
     failing_world
       \<lparr>fetchNews := (\<lambda>cat. Response True ''OK'' (Json (Some [other_article]))),
        generateContent := (\<lambda>prompt. Inr (nl @ ''  IRRELEVANT '' @ nl))\<rparr>"

definition image_world :: "image_fetch \<Rightarrow> string list \<Rightarrow> world" where
  "image_world answer images =
     failing_world
       \<lparr>fetchImage := (\<lambda>url. if url = ''https://img.example/1.png'' then answer
                               else ImageFetchRejected),
        generateImages := (\<lambda>prompt. if prompt = Some ''A gavel on a table'' then Inr (Some images)
                                     else Inl (Rejected ''generateImages''))\<rparr>"

definition empty_highlight_reply :: string where
  "empty_highlight_reply =
     ''CHOSEN_ID: 1'' @ nl @
     ''HEADLINE: Port Expansion Begins'' @ nl @
     ''HIGHLIGHT_WORDS:'' @ nl @
     ''IMAGE_PROMPT: A crane over a harbour'' @ nl @
     ''CAPTION: Work starts. #Dhaka'' @ nl @
     ''SOURCE_NAME: thedailystar''"

definition choose_first_reply :: string where
  "choose_first_reply =
     ''CHOSEN_ID: 1'' @ nl @
     ''HEADLINE: Budget Passed'' @ nl @
     ''HIGHLIGHT_WORDS: Budget'' @ nl @
     ''IMAGE_PROMPT: A ledger on a desk'' @ nl @
     ''CAPTION: The budget is through. #Budget'' @ nl @
     ''SOURCE_NAME: thedailystar''"

definition batch_world :: world where
  "batch_world =
     failing_world
       \<lparr>fetchNews := (\<lambda>cat. Response True ''OK'' (Json (Some [first_seen, other_article]))),
        generateContent := (\<lambda>prompt. Inr choose_first_reply)\<rparr>"

definition trending :: NewsCategory where
  "trending = \<lparr>name = ''Trending'', apiValue = ''top''\<rparr>"

text \<open>
  A world in which the request for politics is answered with status 500 and a JSON body
  without results, and every other request with one article.
\<close>

definition one_failing_world :: world where
  "one_failing_world =
     failing_world
       \<lparr>fetchNews := (\<lambda>cat. if cat = ''politics''
                               then Response False ''Internal Server Error'' (Json None)
                               else Response True ''OK'' (Json (Some [other_article])))\<rparr>"

text \<open>
  A reply with five of the six keys (CAPTION is missing), and a world in which every
  later step succeeds; its webhook accepts a payload only when the payload has no
  summary, so that a posted outcome shows what was sent.
\<close>

definition no_caption_reply :: string where
  "no_caption_reply =
     ''CHOSEN_ID: 1'' @ nl @
     ''HEADLINE: Port Expansion Begins'' @ nl @
     ''HIGHLIGHT_WORDS: Port Expansion'' @ nl @
     ''IMAGE_PROMPT: A crane over a harbour'' @ nl @
     ''SOURCE_NAME: thedailystar''"

definition publishing_world :: "string \<Rightarrow> world" where
  "publishing_world reply =
     \<lparr>fetchNews = (\<lambda>cat. Response True ''OK'' (Json (Some [other_article]))),
      getTime = (\<lambda>d. 0),
      generateContent = (\<lambda>prompt. Inr reply),
      fetchImage = (\<lambda>url. ImageResponse True 200 (Some ''image/png'') (Some ''Man'')),
      generateImages = (\<lambda>prompt. Inl (Rejected ''generateImages'')),
      fetchFont = (\<lambda>url. HttpResponse True 200 ''font''),
      render = (\<lambda>parts fontSize src. Inr ''data:image/png;base64,AAAA''),
      cloudinary = (\<lambda>img. HttpResponse True 200 ''https://res.example/final.png''),
      makeWebhook = (\<lambda>payload. case payload_summary payload of
                                   None \<Rightarrow> HttpResponse True 200 ''Accepted''
                                 | Some s \<Rightarrow> HttpResponse False 400 ''summary present'')\<rparr>"

definition bad_id_reply :: "string \<Rightarrow> string" where
  "bad_id_reply chosen =
     ''CHOSEN_ID: '' @ chosen @ nl @
     ''HEADLINE: Port Expansion Begins'' @ nl @
     ''HIGHLIGHT_WORDS: Port Expansion'' @ nl @
     ''IMAGE_PROMPT: A crane over a harbour'' @ nl @
     ''CAPTION: Work starts. #Dhaka'' @ nl @
     ''SOURCE_NAME: thedailystar''"

definition no_highlight_reply :: string where
  "no_highlight_reply =
     ''CHOSEN_ID: 1'' @ nl @
     ''HEADLINE: Port Expansion Begins'' @ nl @
     ''IMAGE_PROMPT: A crane over a harbour'' @ nl @
     ''CAPTION: Work starts. #Dhaka'' @ nl @
     ''SOURCE_NAME: thedailystar''"

text \<open>
  A world in which the politics and the crime requests return the same link, in two
  versions of the article.
\<close>

definition duplicate_world :: world where
  "duplicate_world =
     failing_world
       \<lparr>fetchNews := (\<lambda>cat. if cat = ''politics'' then Response True ''OK'' (Json (Some [first_seen]))
                               else if cat = ''crime'' then Response True ''OK'' (Json (Some [seen_again]))
                               else Response True ''OK'' (Json None))\<rparr>"

text \<open>
  A reply that chooses the second article, and a world whose model gives that reply to
  the prompt built from the two candidates and to no other prompt.
\<close>

definition choose_second_reply :: string where
  "choose_second_reply =
     ''CHOSEN_ID: 2'' @ nl @
     ''HEADLINE: Port Expansion Begins'' @ nl @
     ''HIGHLIGHT_WORDS: Port Expansion'' @ nl @
     ''IMAGE_PROMPT: A crane over a harbour'' @ nl @
     ''CAPTION: Work starts. #Dhaka'' @ nl @
     ''SOURCE_NAME: thedailystar''"

definition prompt_world :: world where
  "prompt_world =
     failing_world
       \<lparr>fetchNews := (\<lambda>cat. Response True ''OK'' (Json (Some [first_seen, other_article]))),
        generateContent := (\<lambda>prompt. if prompt = buildGeminiPrompt [first_seen, other_article]
                                      then Inr choose_second_reply
                                      else Inl (Rejected ''generateContent''))\<rparr>"

section \<open>Properties of the article aggregator\<close>

lemma map_set_keys: "set (map fst (map_set m k v)) = insert k (set (map fst m))"
proof (induction m)
  case Nil
  show ?case by simp
next
  case (Cons e m)
  obtain k' v' where e: "e = (k', v')" by (cases e)
  show ?case
  proof (cases "k' = k")
    case True
    then show ?thesis by (simp add: e insert_absorb)
  next
    case False
    then show ?thesis using Cons.IH by (simp add: e insert_commute del: set_map)
  qed
qed

lemma map_set_distinct: "distinct (map fst m) \<Longrightarrow> distinct (map fst (map_set m k v))"
  using map_set_keys [of _ k v] by (induction m) (auto simp del: set_map)

lemma map_set_lookup: "map_of (map_set m k v) = (map_of m)(k \<mapsto> v)"
  by (induction m) (auto simp: fun_eq_iff)

lemma foldl_map_set_keys:
  "set (map fst (foldl (\<lambda>m (k, v). map_set m k v) m es)) = set (map fst m) \<union> set (map fst es)"
  by (induction es arbitrary: m) (auto simp: map_set_keys simp del: set_map)

lemma foldl_map_set_distinct:
  "distinct (map fst m) \<Longrightarrow> distinct (map fst (foldl (\<lambda>m (k, v). map_set m k v) m es))"
  by (induction es arbitrary: m) (auto simp: map_set_distinct)

lemma foldl_map_set_lookup:
  "map_of (foldl (\<lambda>m (k, v). map_set m k v) m es) = map_of m ++ map_of (rev es)"
  by (induction es arbitrary: m)
    (auto simp: map_set_lookup fun_eq_iff map_add_def split: option.splits)

lemma new_Map_distinct: "distinct (map fst (new_Map es))"
  by (simp add: new_Map_def foldl_map_set_distinct)

lemma new_Map_lookup: "map_of (new_Map es) = map_of (rev es)"
  by (simp add: new_Map_def foldl_map_set_lookup)

lemma new_Map_keys: "set (map fst (new_Map es)) = set (map fst es)"
  unfolding new_Map_def foldl_map_set_keys by simp

lemma map_of_keyed: "map_of (map (\<lambda>a. (f a, a)) ys) l = find (\<lambda>b. f b = l) ys"
  by (induction ys) auto

lemma new_Map_entry: "(k, v) \<in> set (new_Map es) \<longleftrightarrow> map_of (rev es) k = Some v"
  using new_Map_distinct [of es] new_Map_lookup [of es] by (metis map_of_eq_Some_iff)

lemma uniqueArticles_kept:
  "a \<in> set (uniqueArticles xs) \<longleftrightarrow> find (\<lambda>b. link b = link a) (rev xs) = Some a"
proof -
  have "a \<in> set (uniqueArticles xs)
      \<longleftrightarrow> (\<exists>k. (k, a) \<in> set (new_Map (map (\<lambda>a. (link a, a)) xs)))"
    by (force simp: uniqueArticles_def map_values_def)
  also have "\<dots> \<longleftrightarrow> (\<exists>k. find (\<lambda>b. link b = k) (rev xs) = Some a)"
    by (simp add: new_Map_entry rev_map map_of_keyed)
  also have "\<dots> \<longleftrightarrow> find (\<lambda>b. link b = link a) (rev xs) = Some a"
    by (auto simp: find_Some_iff)
  finally show ?thesis .
qed

lemma uniqueArticles_keys:
  "map link (uniqueArticles xs) = map fst (new_Map (map (\<lambda>a. (link a, a)) xs))"
proof -
  have "\<forall>(k, v) \<in> set (new_Map (map (\<lambda>a. (link a, a)) xs)). k = link v"
    by (auto simp: new_Map_entry rev_map map_of_keyed find_Some_iff)
  then show ?thesis by (auto simp: uniqueArticles_def map_values_def)
qed

lemma uniqueArticles_links_distinct: "distinct (map link (uniqueArticles xs))"
  by (simp add: uniqueArticles_keys new_Map_distinct)

lemma uniqueArticles_links: "set (map link (uniqueArticles xs)) = set (map link xs)"
  using new_Map_keys [of "map (\<lambda>a. (link a, a)) xs"]
  by (simp add: uniqueArticles_keys image_image comp_def del: set_map)

lemma find_rev_last:
  "find P (rev xs) = (if filter P xs = [] then None else Some (last (filter P xs)))"
  by (induction xs rule: rev_induct) auto

lemma filter_distinct_key:
  "distinct (map f us) \<Longrightarrow> a \<in> set us \<Longrightarrow> filter (\<lambda>c. f c = f a) us = [a]"
proof (induction us)
  case Nil
  then show ?case by simp
next
  case (Cons u us)
  show ?case
  proof (cases "u = a")
    case True
    with Cons.prems have "f a \<notin> f ` set us" by simp
    then have "\<forall>x \<in> set us. f x \<noteq> f a" by (metis imageI)
    then have "filter (\<lambda>c. f c = f a) us = []"
      by (simp add: filter_empty_conv)
    with True show ?thesis by simp
  next
    case False
    with Cons.prems have "a \<in> set us" "f u \<noteq> f a" by auto
    with Cons show ?thesis by simp
  qed
qed

section \<open>Properties of the composition engine\<close>

text \<open>
  C7. The font size depends on the headline only through its length; it takes the five
  values 72, 64, 56, 48 and 40 on the lengths up to 50, up to 80, up to 120, up to 160
  and beyond; and a headline at least as long as another never gets a larger size.
\<close>

theorem getDynamicFontSize_steps:
  "(length h \<le> 50 \<longrightarrow> getDynamicFontSize h = 72) \<and>
   (50 < length h \<and> length h \<le> 80 \<longrightarrow> getDynamicFontSize h = 64) \<and>
   (80 < length h \<and> length h \<le> 120 \<longrightarrow> getDynamicFontSize h = 56) \<and>
   (120 < length h \<and> length h \<le> 160 \<longrightarrow> getDynamicFontSize h = 48) \<and>
   (160 < length h \<longrightarrow> getDynamicFontSize h = 40) \<and>
   (length h = length h' \<longrightarrow> getDynamicFontSize h = getDynamicFontSize h') \<and>
   (length h \<le> length h' \<longrightarrow> getDynamicFontSize h' \<le> getDynamicFontSize h)"
  by (simp add: getDynamicFontSize_def Let_def)

theorem getDynamicFontSize_steps_witness:
  "getDynamicFontSize (replicate 10 (CHR ''a'')) = 72 \<and>
   getDynamicFontSize (replicate 50 (CHR ''a'')) = 72 \<and>
   getDynamicFontSize (replicate 51 (CHR ''a'')) = 64 \<and>
   getDynamicFontSize (replicate 60 (CHR ''a'')) = 64 \<and>
   getDynamicFontSize (replicate 100 (CHR ''a'')) = 56 \<and>
   getDynamicFontSize (replicate 140 (CHR ''a'')) = 48 \<and>
   getDynamicFontSize (replicate 200 (CHR ''a'')) = 40 \<and>
   getDynamicFontSize (replicate 200 (CHR ''a'')) \<le> getDynamicFontSize (replicate 140 (CHR ''a''))"
  using getDynamicFontSize_steps [of "replicate 10 (CHR ''a'')" "replicate 50 (CHR ''a'')"]
    getDynamicFontSize_steps [of "replicate 50 (CHR ''a'')" "replicate 51 (CHR ''a'')"]
    getDynamicFontSize_steps [of "replicate 51 (CHR ''a'')" "replicate 60 (CHR ''a'')"]
    getDynamicFontSize_steps [of "replicate 60 (CHR ''a'')" "replicate 100 (CHR ''a'')"]
    getDynamicFontSize_steps [of "replicate 100 (CHR ''a'')" "replicate 140 (CHR ''a'')"]
    getDynamicFontSize_steps [of "replicate 140 (CHR ''a'')" "replicate 200 (CHR ''a'')"]
    getDynamicFontSize_steps [of "replicate 200 (CHR ''a'')" "replicate 200 (CHR ''a'')"]
  by simp

section \<open>Properties: deduplication\<close>

text \<open>
  C2, as the code has it. When the results of the sub-fetches are merged, every link of
  the merged sequence survives, and of the articles that share a link exactly one is
  kept: the last one of the merged sequence. (The claim names the first one; see the
  concrete run below.)
\<close>

theorem uniqueArticles_keeps_last:
  assumes "l \<in> set (map link allArticles)"
  shows "filter (\<lambda>c. link c = l) (uniqueArticles allArticles)
           = [last (filter (\<lambda>b. link b = l) allArticles)] \<and>
         set (map link (uniqueArticles allArticles)) = set (map link allArticles)"
proof
  from assms have "l \<in> set (map link (uniqueArticles allArticles))"
    by (simp only: uniqueArticles_links)
  then obtain a where a: "a \<in> set (uniqueArticles allArticles)" "link a = l"
    by auto
  from a(1) have "find (\<lambda>b. link b = link a) (rev allArticles) = Some a"
    by (simp only: uniqueArticles_kept)
  then have "a = last (filter (\<lambda>b. link b = l) allArticles)"
    by (simp add: find_rev_last a(2) split: if_splits)
  moreover have "filter (\<lambda>c. link c = link a) (uniqueArticles allArticles) = [a]"
    using uniqueArticles_links_distinct a(1) by (rule filter_distinct_key)
  ultimately show "filter (\<lambda>c. link c = l) (uniqueArticles allArticles)
           = [last (filter (\<lambda>b. link b = l) allArticles)]"
    using a(2) by simp
next
  show "set (map link (uniqueArticles allArticles)) = set (map link allArticles)"
    by (rule uniqueArticles_links)
qed

theorem uniqueArticles_keeps_last_witness:
  "filter (\<lambda>c. link c = ''https://news.example/budget'')
       (uniqueArticles [first_seen, other_article, seen_again]) = [seen_again]"
proof -
  have "''https://news.example/budget'' \<in> set (map link [first_seen, other_article, seen_again])"
    by (simp add: first_seen_def example_article_def)
  from uniqueArticles_keeps_last [OF this] show ?thesis
    by (simp add: first_seen_def seen_again_def other_article_def example_article_def)
qed

text \<open>
  The claim as stated fails on two articles that share a link: the article met first is
  dropped and the one met later is kept.
\<close>

theorem uniqueArticles_first_dropped:
  "link first_seen = link seen_again \<and>
   uniqueArticles [first_seen, other_article, seen_again] = [seen_again, other_article] \<and>
   first_seen \<notin> set (uniqueArticles [first_seen, other_article, seen_again]) \<and>
   fetchNewsForCategory duplicate_world trending {} = Inr [seen_again]"
  by (simp add: uniqueArticles_def new_Map_def map_values_def first_seen_def seen_again_def
      other_article_def example_article_def fetchNewsForCategory_def fetchRawArticles_def
      duplicate_world_def failing_world_def trending_def NEWS_CATEGORIES_def aggregate_def
      isValidArticle_def)

section \<open>Properties: the sentinel\<close>

lemma trim_padded_sentinel:
  assumes "list_all isWhiteSpace pre" "list_all isWhiteSpace post"
  shows "trim (pre @ ''IRRELEVANT'' @ post) = ''IRRELEVANT''"
proof -
  have 1: "dropWhile isWhiteSpace (pre @ ''IRRELEVANT'' @ post) = ''IRRELEVANT'' @ post"
    using assms(1) by (simp add: list_all_iff isWhiteSpace_def dropWhile_append)
  have 2: "dropWhile isWhiteSpace (rev post @ rev ''IRRELEVANT'') = rev ''IRRELEVANT''"
    using assms(2) by (simp add: list_all_iff isWhiteSpace_def dropWhile_append)
  show ?thesis unfolding trim_def 1 using 2 by simp
qed

lemma parseReply_sentinel:
  "parseReply ''IRRELEVANT'' = Inl (Error ''Failed to parse Gemini response: IRRELEVANT'')"
  by (simp add: parseReply_def parseData_def parseLine_def trim_def isWhiteSpace_def)

text \<open>
  C6. When the reply of the model, trimmed, is the word IRRELEVANT (so also when the
  word stands between white space), \<^verbatim>\<open>analyzeArticlesWithGemini\<close> returns \<^verbatim>\<open>null\<close>: not
  what the key parser gives on that text, which is the parse error. The pass over the
  category then ends as "no relevant article" and leaves the set of used links as it was.
\<close>

theorem sentinel_precedence:
  assumes "generateContent w (buildGeminiPrompt articles) = Inr raw"
    and "trim raw = ''IRRELEVANT''"
  shows "analyzeArticlesWithGemini w articles = Inr None \<and>
         parseReply (trim raw) = Inl (Error ''Failed to parse Gemini response: IRRELEVANT'') \<and>
         (list_all isWhiteSpace pre \<and> list_all isWhiteSpace post \<longrightarrow>
            trim (pre @ ''IRRELEVANT'' @ post) = ''IRRELEVANT'') \<and>
         (fetchNewsForCategory w category usedArticleUrls = Inr articles \<and> articles \<noteq> [] \<longrightarrow>
            processCategory w usedArticleUrls category =
              \<lparr>candidates = articles, result = NoRelevantArticle, usedAfter = usedArticleUrls\<rparr>)"
proof (intro conjI impI)
  show null: "analyzeArticlesWithGemini w articles = Inr None"
    using assms by (simp add: analyzeArticlesWithGemini_def)
  show "parseReply (trim raw) = Inl (Error ''Failed to parse Gemini response: IRRELEVANT'')"
    using assms(2) by (simp only: parseReply_sentinel)
  show "trim (pre @ ''IRRELEVANT'' @ post) = ''IRRELEVANT''"
    if "list_all isWhiteSpace pre \<and> list_all isWhiteSpace post"
    using that by (simp only: trim_padded_sentinel)
  show "processCategory w usedArticleUrls category =
      \<lparr>candidates = articles, result = NoRelevantArticle, usedAfter = usedArticleUrls\<rparr>"
    if "fetchNewsForCategory w category usedArticleUrls = Inr articles \<and> articles \<noteq> []"
    using that null by (simp add: processCategory_def)
qed

theorem sentinel_precedence_witness:
  "analyzeArticlesWithGemini sentinel_world [other_article] = Inr None \<and>
   processCategory sentinel_world {} politics =
     \<lparr>candidates = [other_article], result = NoRelevantArticle, usedAfter = {}\<rparr>"
proof -
  have reply: "generateContent sentinel_world (buildGeminiPrompt [other_article])
      = Inr (nl @ ''  IRRELEVANT '' @ nl)"
    by (simp add: sentinel_world_def)
  have trimmed: "trim (nl @ ''  IRRELEVANT '' @ nl) = ''IRRELEVANT''"
    by (simp add: trim_def nl_def isWhiteSpace_def)
  have fetched: "fetchNewsForCategory sentinel_world politics {} = Inr [other_article]"
    by (simp add: fetchNewsForCategory_def fetchRawArticles_def sentinel_world_def politics_def
        isValidArticle_def other_article_def example_article_def)
  from sentinel_precedence [OF reply trimmed, of "[]" "[]" politics "{}"] fetched
  show ?thesis by simp
qed

section \<open>Properties: numbering and numerals\<close>

lemma map_index_nth:
  "map_index f k xs = map (\<lambda>i. f (xs ! i) (k + i)) [0..<length xs]"
proof (induction xs arbitrary: k)
  case Nil
  show ?case by simp
next
  case (Cons x xs)
  have "[0..<length (x # xs)] = 0 # map Suc [0..<length xs]"
    by (simp add: upt_conv_Cons map_Suc_upt del: upt_Suc)
  then show ?case by (simp add: Cons.IH comp_def del: upt_Suc)
qed

lemma digit_isDigit: "d < 10 \<Longrightarrow> isDigit (char_of (48 + (d :: nat)))"
  by (simp add: isDigit_def)

lemma digit_value: "d < 10 \<Longrightarrow> digitValue (char_of (48 + (d :: nat))) = int d"
  by (simp add: digitValue_def)

lemma digit_not_space: "isDigit c \<Longrightarrow> \<not> isWhiteSpace c"
  by (auto simp: isDigit_def isWhiteSpace_def)

lemma digit_not_sign: "isDigit c \<Longrightarrow> c \<noteq> CHR ''+'' \<and> c \<noteq> CHR ''-''"
  by (auto simp: isDigit_def)

declare show_nat.simps [simp del]

lemma show_nat_digits: "list_all isDigit (show_nat n)"
  by (induction n rule: show_nat.induct) (subst show_nat.simps, simp add: digit_isDigit)

lemma show_nat_nonempty: "show_nat n \<noteq> []"
  by (subst show_nat.simps) simp

lemma digitsValue_snoc: "digitsValue (z @ [c]) = 10 * digitsValue z + digitValue c"
  by (simp add: digitsValue_def)

lemma show_nat_value: "digitsValue (show_nat n) = int n"
proof (induction n rule: show_nat.induct)
  case (1 n)
  show ?case
  proof (cases "n < 10")
    case True
    then show ?thesis by (subst show_nat.simps) (simp add: digitsValue_def digit_value)
  next
    case False
    then have "digitsValue (show_nat n) = 10 * digitsValue (show_nat (n div 10)) + int (n mod 10)"
      by (subst show_nat.simps) (simp add: digitsValue_snoc digit_value)
    also have "\<dots> = int n" using False 1 by (simp add: zmod_int zdiv_int)
    finally show ?thesis .
  qed
qed

lemma parseInt_show_nat: "parseInt (Some (show_nat n)) = Some (int n)"
proof -
  have d: "list_all isDigit (show_nat n)" by (rule show_nat_digits)
  have ne: "show_nat n \<noteq> []" by (rule show_nat_nonempty)
  then obtain c cs where s: "show_nat n = c # cs" by (cases "show_nat n") auto
  with d have c: "isDigit c" by simp
  have t: "trimStart (show_nat n) = show_nat n"
    using c by (simp add: trimStart_def s digit_not_space)
  have tw: "takeWhile isDigit (show_nat n) = show_nat n"
    using d by (simp add: takeWhile_eq_all_conv list_all_iff)
  show ?thesis
    using digit_not_sign [OF c] ne
    by (simp add: parseInt_def t Let_def s [symmetric] tw show_nat_value) (simp add: s)
qed

section \<open>Properties: the image resolver\<close>

text \<open>
  C9. When the article has an image URL and its fetch answers \<^verbatim>\<open>ok\<close> with a readable body,
  the resolver returns that image as a data URL, with the reported content type (or
  \<^verbatim>\<open>image/png\<close> when none is reported). When the fetch is rejected or answers with another
  status, the outcome is that of a generation call with the image prompt: the first
  generated image as a PNG data URL when there is one, and \<^verbatim>\<open>null\<close>, not an exception,
  when the generation returns no image.
\<close>

theorem prepareMainImage_outcomes:
  assumes "image_url article = Some url" and "url \<noteq> []"
  shows "(fetchImage w url = ImageResponse True status contentType (Some bytes) \<longrightarrow>
            prepareMainImage w article geminiPrompt =
              Inr (Some (''data:'' @
                (case contentType of
                   None \<Rightarrow> ''image/png''
                 | Some t \<Rightarrow> if t = [] then ''image/png'' else t) @
                '';base64,'' @ btoa bytes))) \<and>
         (fetchImage w url = ImageFetchRejected \<or>
          fetchImage w url = ImageResponse False status contentType body \<longrightarrow>
            (generateImages w geminiPrompt = Inr (Some (imageBytes # others)) \<longrightarrow>
               prepareMainImage w article geminiPrompt =
                 Inr (Some (''data:image/png;base64,'' @ imageBytes))) \<and>
            (generateImages w geminiPrompt = Inr (Some []) \<or>
             generateImages w geminiPrompt = Inr None \<longrightarrow>
               prepareMainImage w article geminiPrompt = Inr None))"
  using assms
  by (auto simp: prepareMainImage_def generateMainImage_def split: option.splits)

theorem prepareMainImage_outcomes_witness:
  "prepareMainImage (image_world (ImageResponse True 200 (Some ''image/jpeg'') (Some ''Man'')) [])
       other_article (Some ''A gavel on a table'')
     = Inr (Some ''data:image/jpeg;base64,TWFu'') \<and>
   prepareMainImage (image_world (ImageResponse False 404 None None) [''iVBORw0KGgo=''])
       other_article (Some ''A gavel on a table'')
     = Inr (Some ''data:image/png;base64,iVBORw0KGgo='') \<and>
   prepareMainImage (image_world (ImageResponse False 404 None None) [])
       other_article (Some ''A gavel on a table'')
     = Inr None"
proof -
  have url: "image_url other_article = Some ''https://img.example/1.png''"
    and ne: "''https://img.example/1.png'' \<noteq> []"
    by (simp_all add: other_article_def example_article_def)
  have enc: "btoa ''Man'' = ''TWFu''" by code_simp
  note outcomes = prepareMainImage_outcomes [OF url ne]
  have "prepareMainImage (image_world (ImageResponse True 200 (Some ''image/jpeg'') (Some ''Man'')) [])
       other_article (Some ''A gavel on a table'')
     = Inr (Some ''data:image/jpeg;base64,TWFu'')"
    using outcomes [where w = "image_world (ImageResponse True 200 (Some ''image/jpeg'') (Some ''Man'')) []"
        and status = 200 and contentType = "Some ''image/jpeg''" and bytes = "''Man''"
        and geminiPrompt = "Some ''A gavel on a table''"]
    by (simp add: image_world_def enc)
  moreover have "prepareMainImage (image_world (ImageResponse False 404 None None) [''iVBORw0KGgo=''])
       other_article (Some ''A gavel on a table'')
     = Inr (Some ''data:image/png;base64,iVBORw0KGgo='')"
    using outcomes [where w = "image_world (ImageResponse False 404 None None) [''iVBORw0KGgo='']"
        and status = 404 and contentType = None and body = None
        and geminiPrompt = "Some ''A gavel on a table''" and imageBytes = "''iVBORw0KGgo=''"
        and others = "[]"]
    by (simp add: image_world_def)
  moreover have "prepareMainImage (image_world (ImageResponse False 404 None None) [])
       other_article (Some ''A gavel on a table'')
     = Inr None"
    using outcomes [where w = "image_world (ImageResponse False 404 None None) []"
        and status = 404 and contentType = None and body = None
        and geminiPrompt = "Some ''A gavel on a table''"]
    by (simp add: image_world_def)
  ultimately show ?thesis by blast
qed

section \<open>Properties: an empty highlight field\<close>

lemma split_on_empty: "split_on c [] = [[]]"
  by simp

lemma trim_empty: "trim [] = []"
  by (simp add: trim_def)

text \<open>
  C10. When the value parsed for HIGHLIGHT_WORDS is the empty string, the parser returns a
  result whose highlight list is the one-element list of the empty string; and on a
  highlight list that is empty or starts with the empty string the segmentation returns
  the whole headline as one segment that is not highlighted, whatever the other phrases
  are. So the result of such a reply is segmented without highlighting and without an
  error.
\<close>

theorem empty_highlight_disables:
  "(parseData reply ''HIGHLIGHT_WORDS'' = Some [] \<longrightarrow>
      (\<exists>r. parseReply reply = Inr r \<and> highlightWords r = [[]] \<and>
           splitHeadlineForHighlighting hl (highlightWords r)
             = Inr [\<lparr>text' = hl, highlighted = False\<rparr>])) \<and>
   (generateContent w (buildGeminiPrompt articles) = Inr raw \<and> trim raw \<noteq> ''IRRELEVANT'' \<and>
    parseData (trim raw) ''HIGHLIGHT_WORDS'' = Some [] \<longrightarrow>
      (\<exists>r. analyzeArticlesWithGemini w articles = Inr (Some r) \<and> highlightWords r = [[]])) \<and>
   (hws = [] \<or> hd hws = [] \<longrightarrow>
      splitHeadlineForHighlighting hl hws = Inr [\<lparr>text' = hl, highlighted = False\<rparr>])"
  by (auto simp: analyzeArticlesWithGemini_def parseReply_def Let_def trim_empty
      splitHeadlineForHighlighting_def)

theorem empty_highlight_disables_witness:
  "parseReply empty_highlight_reply =
     Inr \<lparr>chosenId = Some 1, headline = Some ''Port Expansion Begins'',
          highlightWords = [[]], imagePrompt = Some ''A crane over a harbour'',
          caption = Some ''Work starts. #Dhaka'', sourceName = Some ''thedailystar''\<rparr> \<and>
   splitHeadlineForHighlighting ''Port Expansion Begins'' [[]]
     = Inr [\<lparr>text' = ''Port Expansion Begins'', highlighted = False\<rparr>] \<and>
   splitHeadlineForHighlighting ''Port Expansion Begins'' [[], ''Port'']
     = Inr [\<lparr>text' = ''Port Expansion Begins'', highlighted = False\<rparr>]"
proof -
  have parsed: "parseReply empty_highlight_reply =
     Inr \<lparr>chosenId = Some 1, headline = Some ''Port Expansion Begins'',
          highlightWords = [[]], imagePrompt = Some ''A crane over a harbour'',
          caption = Some ''Work starts. #Dhaka'', sourceName = Some ''thedailystar''\<rparr>"
    by code_simp
  have field: "parseData empty_highlight_reply ''HIGHLIGHT_WORDS'' = Some []"
    by code_simp
  from empty_highlight_disables [where reply = empty_highlight_reply
      and hl = "''Port Expansion Begins''" and hws = "[[], ''Port'']"]
    field parsed
  show ?thesis by auto
qed

section \<open>Properties: the set of used links\<close>

lemma fetchNewsForCategory_unused:
  "fetchNewsForCategory w category used = Inr articles \<Longrightarrow> a \<in> set articles \<Longrightarrow> link a \<notin> used"
  by (auto simp: fetchNewsForCategory_def split: sum.splits)

lemma chosenArticle_member: "chosenArticle articles cid = Some a \<Longrightarrow> a \<in> set articles"
  by (auto simp: chosenArticle_def split: option.splits if_splits)

lemma chosenLink_publishChosen: "chosenLink (publishChosen w r a) = Some (link a)"
  by (simp add: publishChosen_def split: sum.splits option.splits)

lemma processCategory_candidates:
  "a \<in> set (candidates (processCategory w used category)) \<Longrightarrow> link a \<notin> used"
  by (auto simp: processCategory_def dest: fetchNewsForCategory_unused
      split: sum.splits option.splits if_splits)

lemma processCategory_usedAfter:
  "usedAfter (processCategory w used category) =
     (case chosenLink (result (processCategory w used category)) of
        None \<Rightarrow> used
      | Some l \<Rightarrow> insert l used)"
  by (simp add: processCategory_def chosenLink_publishChosen split: sum.splits option.splits)

lemma processCategory_chosen:
  assumes "chosenLink (result (processCategory w used category)) = Some l"
  shows "l \<notin> used \<and> l \<in> link ` set (candidates (processCategory w used category))"
proof -
  from assms obtain articles r a where
    f: "fetchNewsForCategory w category used = Inr articles" and
    c: "chosenArticle articles (chosenId r) = Some a" and
    p: "processCategory w used category =
          \<lparr>candidates = articles, result = publishChosen w r a, usedAfter = insert (link a) used\<rparr>"
    by (auto simp: processCategory_def split: sum.splits option.splits if_splits)
  from assms p have l: "l = link a" by (simp add: chosenLink_publishChosen)
  from c have "a \<in> set articles" by (rule chosenArticle_member)
  with f l p show ?thesis by (auto dest: fetchNewsForCategory_unused)
qed

lemma chosenLinks_Cons:
  "chosenLinks ((u, p) # run) =
     (case chosenLink (result p) of None \<Rightarrow> chosenLinks run | Some l \<Rightarrow> l # chosenLinks run)"
  by (simp add: chosenLinks_def List.map_filter_simps split: option.splits)

lemma processCategories_distinct:
  "distinct (chosenLinks (processCategories worlds used cs)) \<and>
   set (chosenLinks (processCategories worlds used cs)) \<inter> used = {}"
proof (induction cs arbitrary: used)
  case Nil
  show ?case by (simp add: chosenLinks_def List.map_filter_simps)
next
  case (Cons c cs)
  let ?p = "processCategory (worlds c) used c"
  note IH = Cons.IH [of "usedAfter ?p"]
  show ?case
  proof (cases "chosenLink (result ?p)")
    case None
    then have "usedAfter ?p = used" by (simp add: processCategory_usedAfter)
    with IH None show ?thesis by (simp add: Let_def chosenLinks_Cons)
  next
    case (Some l)
    then have u: "usedAfter ?p = insert l used" by (simp add: processCategory_usedAfter)
    from Some have "l \<notin> used" by (simp add: processCategory_chosen)
    with IH u Some show ?thesis by (auto simp: Let_def chosenLinks_Cons)
  qed
qed

lemma processCategories_length: "length (processCategories worlds used cs) = length cs"
  by (induction cs arbitrary: used) (simp_all add: Let_def)

lemma processCategories_nth:
  "i < length cs \<Longrightarrow>
   fst (processCategories worlds used cs ! i) =
     (if i = 0 then used else usedAfter (snd (processCategories worlds used cs ! (i - 1)))) \<and>
   snd (processCategories worlds used cs ! i) =
     processCategory (worlds (cs ! i)) (fst (processCategories worlds used cs ! i)) (cs ! i)"
proof (induction cs arbitrary: used i)
  case Nil
  then show ?case by simp
next
  case (Cons c cs)
  show ?case
  proof (cases i)
    case 0
    then show ?thesis by (simp add: Let_def)
  next
    case (Suc j)
    with Cons.prems have j: "j < length cs" by simp
    from Cons.IH [OF j, of "usedAfter (processCategory (worlds c) used c)"] Suc
    show ?thesis by (cases j) (simp_all add: Let_def)
  qed
qed

text \<open>
  C5. In a run of the batch, whatever the outside world answers: the passes are one per
  category; the first starts from the empty set and each later one from the set the pass
  before it left; the candidates of a pass exclude every link of the set it starts from;
  the set a pass leaves is the set it started from, with the link of the article it
  chose added when it chose one; and the links chosen in the run are pairwise distinct.
\<close>

theorem used_links_exclusive:
  "length (processNewsBatch worlds) = length NEWS_CATEGORIES \<and>
   distinct (chosenLinks (processNewsBatch worlds)) \<and>
   (\<forall>i < length (processNewsBatch worlds).
      fst (processNewsBatch worlds ! i) =
        (if i = 0 then {} else usedAfter (snd (processNewsBatch worlds ! (i - 1)))) \<and>
      (\<forall>a \<in> set (candidates (snd (processNewsBatch worlds ! i))).
         link a \<notin> fst (processNewsBatch worlds ! i)) \<and>
      usedAfter (snd (processNewsBatch worlds ! i)) =
        (case chosenLink (result (snd (processNewsBatch worlds ! i))) of
           None \<Rightarrow> fst (processNewsBatch worlds ! i)
         | Some l \<Rightarrow> insert l (fst (processNewsBatch worlds ! i))) \<and>
      fst (processNewsBatch worlds ! i) \<subseteq> usedAfter (snd (processNewsBatch worlds ! i)) \<and>
      (\<forall>l. chosenLink (result (snd (processNewsBatch worlds ! i))) = Some l \<longrightarrow>
         l \<in> link ` set (candidates (snd (processNewsBatch worlds ! i)))))"
proof (intro conjI allI impI)
  show "length (processNewsBatch worlds) = length NEWS_CATEGORIES"
    by (simp add: processNewsBatch_def processCategories_length)
  show "distinct (chosenLinks (processNewsBatch worlds))"
    using processCategories_distinct [of worlds "{}" NEWS_CATEGORIES]
    by (simp add: processNewsBatch_def)
next
  fix i
  assume "i < length (processNewsBatch worlds)"
  then have i: "i < length NEWS_CATEGORIES"
    by (simp add: processNewsBatch_def processCategories_length)
  note nth = processCategories_nth [OF i, of worlds "{}", folded processNewsBatch_def]
  from nth show "fst (processNewsBatch worlds ! i) =
      (if i = 0 then {} else usedAfter (snd (processNewsBatch worlds ! (i - 1))))"
    by simp
  from nth have p: "snd (processNewsBatch worlds ! i) =
      processCategory (worlds (NEWS_CATEGORIES ! i)) (fst (processNewsBatch worlds ! i))
        (NEWS_CATEGORIES ! i)"
    by simp
  show "\<forall>a \<in> set (candidates (snd (processNewsBatch worlds ! i))).
      link a \<notin> fst (processNewsBatch worlds ! i)"
    by (subst p) (auto dest: processCategory_candidates)
  show after: "usedAfter (snd (processNewsBatch worlds ! i)) =
      (case chosenLink (result (snd (processNewsBatch worlds ! i))) of
         None \<Rightarrow> fst (processNewsBatch worlds ! i)
       | Some l \<Rightarrow> insert l (fst (processNewsBatch worlds ! i)))"
    by (subst (1 2) p) (rule processCategory_usedAfter)
  show "fst (processNewsBatch worlds ! i) \<subseteq> usedAfter (snd (processNewsBatch worlds ! i))"
    unfolding after by (auto split: option.splits)
  show "l \<in> link ` set (candidates (snd (processNewsBatch worlds ! i)))"
    if "chosenLink (result (snd (processNewsBatch worlds ! i))) = Some l" for l
    using that processCategory_chosen [of "worlds (NEWS_CATEGORIES ! i)"
        "fst (processNewsBatch worlds ! i)" "NEWS_CATEGORIES ! i" l]
    by (simp add: p [symmetric])
qed

theorem used_links_exclusive_witness:
  "chosenLinks (processNewsBatch (\<lambda>category. batch_world))
     = [''https://news.example/budget'', ''https://news.example/port''] \<and>
   distinct (chosenLinks (processNewsBatch (\<lambda>category. batch_world))) \<and>
   map (\<lambda>(u, p). map link (candidates p)) (processNewsBatch (\<lambda>category. batch_world))
     = [[''https://news.example/budget'', ''https://news.example/port''],
        [''https://news.example/port''], [], [], []] \<and>
   map (\<lambda>(u, p). u) (processNewsBatch (\<lambda>category. batch_world))
     = [{}, {''https://news.example/budget''},
        {''https://news.example/budget'', ''https://news.example/port''},
        {''https://news.example/budget'', ''https://news.example/port''},
        {''https://news.example/budget'', ''https://news.example/port''}]"
proof -
  have chosen: "chosenLinks (processNewsBatch (\<lambda>category. batch_world))
     = [''https://news.example/budget'', ''https://news.example/port'']"
    by code_simp
  have offered: "map (\<lambda>(u, p). map link (candidates p)) (processNewsBatch (\<lambda>category. batch_world))
     = [[''https://news.example/budget'', ''https://news.example/port''],
        [''https://news.example/port''], [], [], []]"
    by code_simp
  have used: "map (\<lambda>(u, p). u) (processNewsBatch (\<lambda>category. batch_world))
     = [{}, {''https://news.example/budget''},
        {''https://news.example/budget'', ''https://news.example/port''},
        {''https://news.example/budget'', ''https://news.example/port''},
        {''https://news.example/budget'', ''https://news.example/port''}]"
    by code_simp
  from used_links_exclusive [of "\<lambda>category. batch_world"] chosen offered used
  show ?thesis by simp
qed

section \<open>Properties: candidate ordering\<close>

text \<open>
  C8. In a pass over a category, the prompt sent to the model lists the candidates that
  were fetched, one entry per article in the order of the array, and the entry of the
  article at position \<open>i + 1\<close> carries the numeral of \<open>i + 1\<close> as its ID (a numeral that
  \<^verbatim>\<open>parseInt\<close> reads back as \<open>i + 1\<close>). When the reply to that prompt is parsed to the
  chosen id \<open>i + 1\<close>, a position of the array, the pass selects the article at that
  position of the same array: it is the article handed on to publication, and its link
  is the one added to the set of used links.
\<close>

theorem candidate_ordering:
  assumes fetched: "fetchNewsForCategory w category usedArticleUrls = Inr articles"
    and pos: "i < length articles"
    and reply: "generateContent w (buildGeminiPrompt articles) = Inr raw"
    and structured: "trim raw \<noteq> ''IRRELEVANT''"
    and complete: "parseData (trim raw) ''HIGHLIGHT_WORDS'' = Some hw"
    and parsed: "parseInt (parseData (trim raw) ''CHOSEN_ID'') = Some (int i + 1)"
  shows "buildGeminiPrompt articles =
           PROMPT_INSTRUCTIONS @
           join nl (map (\<lambda>j. articleEntry (articles ! j) j) [0..<length articles]) @
           PROMPT_OUTPUT_FORMAT \<and>
         articleEntry (articles ! i) i =
           ''ARTICLE '' @ show_nat (i + 1) @ '':'' @ nl @
           ''ID: '' @ show_nat (i + 1) @ nl @
           ''Title: '' @ title (articles ! i) @ nl @
           ''Content: '' @ contentOrDescription (articles ! i) @ nl @
           ''Source: '' @ source_id (articles ! i) @ nl @ ''---'' \<and>
         parseInt (Some (show_nat (i + 1))) = Some (int i + 1) \<and>
         chosenArticle articles (Some (int i + 1)) = Some (articles ! i) \<and>
         (\<exists>r. analyzeArticlesWithGemini w articles = Inr (Some r) \<and>
              chosenId r = Some (int i + 1) \<and>
              processCategory w usedArticleUrls category =
                \<lparr>candidates = articles, result = publishChosen w r (articles ! i),
                 usedAfter = insert (link (articles ! i)) usedArticleUrls\<rparr>) \<and>
         chosenLink (result (processCategory w usedArticleUrls category))
           = Some (link (articles ! i))"
proof -
  let ?r = "\<lparr>chosenId = Some (int i + 1),
            headline = parseData (trim raw) ''HEADLINE'',
            highlightWords = map trim (split_on (CHR '','') hw),
            imagePrompt = parseData (trim raw) ''IMAGE_PROMPT'',
            caption = parseData (trim raw) ''CAPTION'',
            sourceName = parseData (trim raw) ''SOURCE_NAME''\<rparr>"
  have prompt: "buildGeminiPrompt articles =
      PROMPT_INSTRUCTIONS @
      join nl (map (\<lambda>j. articleEntry (articles ! j) j) [0..<length articles]) @
      PROMPT_OUTPUT_FORMAT"
    by (simp add: buildGeminiPrompt_def articlesString_def map_index_nth)
  have entry: "articleEntry (articles ! i) i =
      ''ARTICLE '' @ show_nat (i + 1) @ '':'' @ nl @
      ''ID: '' @ show_nat (i + 1) @ nl @
      ''Title: '' @ title (articles ! i) @ nl @
      ''Content: '' @ contentOrDescription (articles ! i) @ nl @
      ''Source: '' @ source_id (articles ! i) @ nl @ ''---''"
    by (simp add: articleEntry_def)
  have numeral: "parseInt (Some (show_nat (i + 1))) = Some (int i + 1)"
    using parseInt_show_nat [of "i + 1"] by simp
  have lookup: "chosenArticle articles (Some (int i + 1)) = Some (articles ! i)"
    using pos by (simp add: chosenArticle_def)
  have "parseReply (trim raw) = Inr ?r"
    using complete parsed by (simp add: parseReply_def Let_def)
  with reply structured have analysis: "analyzeArticlesWithGemini w articles = Inr (Some ?r)"
    by (simp add: analyzeArticlesWithGemini_def Let_def)
  from pos have nonempty: "articles \<noteq> []" by auto
  have pass: "processCategory w usedArticleUrls category =
      \<lparr>candidates = articles, result = publishChosen w ?r (articles ! i),
       usedAfter = insert (link (articles ! i)) usedArticleUrls\<rparr>"
    using fetched nonempty analysis lookup by (simp add: processCategory_def)
  have chosen: "chosenLink (result (processCategory w usedArticleUrls category))
      = Some (link (articles ! i))"
    by (simp add: pass chosenLink_publishChosen)
  from analysis pass have "\<exists>r. analyzeArticlesWithGemini w articles = Inr (Some r) \<and>
      chosenId r = Some (int i + 1) \<and>
      processCategory w usedArticleUrls category =
        \<lparr>candidates = articles, result = publishChosen w r (articles ! i),
         usedAfter = insert (link (articles ! i)) usedArticleUrls\<rparr>"
    by (intro exI [of _ ?r]) simp
  with prompt entry numeral lookup chosen show ?thesis by blast
qed

theorem candidate_ordering_witness:
  "processCategory prompt_world {} politics =
     \<lparr>candidates = [first_seen, other_article],
      result = FailedAfterChoice ''https://news.example/port'' (Rejected ''generateImages''),
      usedAfter = {''https://news.example/port''}\<rparr> \<and>
   chosenLink (result (processCategory prompt_world {} politics))
     = Some (link ([first_seen, other_article] ! 1)) \<and>
   link ([first_seen, other_article] ! 1) = ''https://news.example/port'' \<and>
   articlesString [first_seen, other_article] =
     ''ARTICLE 1:'' @ nl @ ''ID: 1'' @ nl @ ''Title: Budget passed'' @ nl @
     ''Content: Some description'' @ nl @ ''Source: thedailystar'' @ nl @ ''---'' @ nl @
     ''ARTICLE 2:'' @ nl @ ''ID: 2'' @ nl @ ''Title: Port expansion begins'' @ nl @
     ''Content: Some description'' @ nl @ ''Source: thedailystar'' @ nl @ ''---''"
proof -
  have fetched: "fetchNewsForCategory prompt_world politics {} = Inr [first_seen, other_article]"
    by code_simp
  have pos: "(1::nat) < length [first_seen, other_article]" by simp
  have reply: "generateContent prompt_world (buildGeminiPrompt [first_seen, other_article])
      = Inr choose_second_reply"
    by (simp add: prompt_world_def)
  have structured: "trim choose_second_reply \<noteq> ''IRRELEVANT''" by code_simp
  have complete: "parseData (trim choose_second_reply) ''HIGHLIGHT_WORDS'' = Some ''Port Expansion''"
    by code_simp
  have parsed: "parseInt (parseData (trim choose_second_reply) ''CHOSEN_ID'') = Some (int 1 + 1)"
    by code_simp
  have pass: "processCategory prompt_world {} politics =
     \<lparr>candidates = [first_seen, other_article],
      result = FailedAfterChoice ''https://news.example/port'' (Rejected ''generateImages''),
      usedAfter = {''https://news.example/port''}\<rparr>"
    by code_simp
  have listed: "articlesString [first_seen, other_article] =
     ''ARTICLE 1:'' @ nl @ ''ID: 1'' @ nl @ ''Title: Budget passed'' @ nl @
     ''Content: Some description'' @ nl @ ''Source: thedailystar'' @ nl @ ''---'' @ nl @
     ''ARTICLE 2:'' @ nl @ ''ID: 2'' @ nl @ ''Title: Port expansion begins'' @ nl @
     ''Content: Some description'' @ nl @ ''Source: thedailystar'' @ nl @ ''---''"
    by code_simp
  have port: "link ([first_seen, other_article] ! 1) = ''https://news.example/port''"
    by (simp add: other_article_def example_article_def)
  from candidate_ordering [OF fetched pos reply structured complete parsed]
  have "chosenLink (result (processCategory prompt_world {} politics))
      = Some (link ([first_seen, other_article] ! 1))"
    by blast
  with pass listed port show ?thesis by blast
qed

section \<open>Properties: failed fetches\<close>

lemma single_fetch_not_ok:
  assumes "apiValue category \<noteq> ''top''"
    and "fetchNews w (apiValue category) = Response False statusText body"
  shows "fetchNewsForCategory w category used
    = Inl (Error (''NewsData API request failed: '' @ statusText))"
  using assms by (simp add: fetchNewsForCategory_def fetchRawArticles_def)

lemma promise_all_rejects: "Inl e \<in> set ps \<Longrightarrow> \<exists>e'. promise_all ps = Inl e'"
proof (induction ps)
  case Nil
  then show ?case by simp
next
  case (Cons p ps)
  show ?case
  proof (cases p)
    case (Inl a)
    then show ?thesis by simp
  next
    case (Inr b)
    with Cons obtain e' where "promise_all ps = Inl e'" by auto
    with Inr show ?thesis by simp
  qed
qed

lemma aggregate_fetch_rejected:
  assumes "apiValue category = ''top''"
    and "cat \<in> {''politics'', ''crime'', ''entertainment'', ''business''}"
    and "fetchNews w cat = FetchRejected \<or> fetchNews w cat = Response ok statusText NotJson"
  shows "\<exists>e. fetchNewsForCategory w category used = Inl e"
proof -
  let ?ps = "map (\<lambda>cat. fetchJson (fetchNews w cat))
      (map apiValue (filter (\<lambda>c. apiValue c \<noteq> ''top'') NEWS_CATEGORIES))"
  from assms(3) obtain e where e: "fetchJson (fetchNews w cat) = Inl e" by auto
  from assms(2) have "cat \<in> set (map apiValue (filter (\<lambda>c. apiValue c \<noteq> ''top'') NEWS_CATEGORIES))"
    by (auto simp: NEWS_CATEGORIES_def)
  then have "Inl e \<in> set ?ps" using e by (metis (no_types, lifting) image_eqI list.set_map)
  then have "\<exists>e'. promise_all ?ps = Inl e'" by (rule promise_all_rejects)
  then obtain e' where "promise_all ?ps = Inl e'" by blast
  with assms(1) show ?thesis
    by (simp add: fetchNewsForCategory_def fetchRawArticles_def Let_def)
qed

text \<open>
  C4, at a concrete input. One sub-fetch of the aggregate category is answered with
  status 500; the aggregate step does not fail but returns what the other sub-fetches
  gave. The same answer to the request of the single category is the fatal error.
\<close>

theorem aggregate_ignores_status:
  "fetchNewsForCategory one_failing_world trending {} = Inr [other_article] \<and>
   fetchNewsForCategory one_failing_world politics {}
     = Inl (Error ''NewsData API request failed: Internal Server Error'')"
  by (simp add: fetchNewsForCategory_def fetchRawArticles_def one_failing_world_def
      failing_world_def trending_def politics_def NEWS_CATEGORIES_def aggregate_def
      uniqueArticles_def new_Map_def map_values_def isValidArticle_def other_article_def
      example_article_def)

section \<open>Properties: incomplete replies\<close>

text \<open>
  Of the six keys, the parser misses HIGHLIGHT_WORDS only: without it the parse error is
  thrown and the pass fails with the set of used links unchanged.
\<close>

lemma missing_highlight_words_rejected:
  "parseData reply ''HIGHLIGHT_WORDS'' = None \<Longrightarrow>
   parseReply reply = Inl (Error (''Failed to parse Gemini response: '' @ reply))"
  by (simp add: parseReply_def)

lemma missing_highlight_words_example:
  "analyzeArticlesWithGemini (publishing_world no_highlight_reply) [other_article]
     = Inl (Error (''Failed to parse Gemini response: '' @ no_highlight_reply))"
  by code_simp

text \<open>
  A chosen id that is no number or no position of the candidates is not refused by the
  parser; the pass fails afterwards, with the \<^verbatim>\<open>TypeError\<close> of \<^verbatim>\<open>chosenArticle.link\<close>, before
  the set of used links is changed.
\<close>

lemma bad_chosen_id_example:
  "processCategory (publishing_world (bad_id_reply ''two'')) {} politics
     = \<lparr>candidates = [other_article], result = Failed TypeError, usedAfter = {}\<rparr> \<and>
   processCategory (publishing_world (bad_id_reply ''7'')) {} politics
     = \<lparr>candidates = [other_article], result = Failed TypeError, usedAfter = {}\<rparr> \<and>
   processCategory (publishing_world (bad_id_reply ''0'')) {} politics
     = \<lparr>candidates = [other_article], result = Failed TypeError, usedAfter = {}\<rparr>"
  by code_simp

text \<open>
  C1, at a concrete input. The reply has no CAPTION line. The parser does not fail: it
  returns a result whose caption is \<^verbatim>\<open>undefined\<close>, and the pass goes on to post it.
\<close>

theorem missing_key_accepted:
  "analyzeArticlesWithGemini (publishing_world no_caption_reply) [other_article]
     = Inr (Some \<lparr>chosenId = Some 1, headline = Some ''Port Expansion Begins'',
                  highlightWords = [''Port Expansion''],
                  imagePrompt = Some ''A crane over a harbour'',
                  caption = None, sourceName = Some ''thedailystar''\<rparr>) \<and>
   processCategory (publishing_world no_caption_reply) {} politics
     = \<lparr>candidates = [other_article],
        result = Posted ''https://news.example/port'' ''https://res.example/final.png'',
        usedAfter = {''https://news.example/port''}\<rparr>"
  by code_simp

section \<open>Properties: headline segmentation\<close>

text \<open>
  C3, at a concrete input. The highlight phrase \<^verbatim>\<open>(BDT)\<close> is put into the pattern as it
  is, so its parentheses form a second capturing group and the split returns the match
  twice: the texts of the segments, put together, are not the headline.
\<close>

theorem segmentation_duplicates_group:
  "splitHeadlineForHighlighting ''Taka (BDT) slides'' [''(BDT)'']
     = Inr [\<lparr>text' = ''Taka ('', highlighted = False\<rparr>,
            \<lparr>text' = ''BDT'', highlighted = False\<rparr>,
            \<lparr>text' = ''BDT'', highlighted = False\<rparr>,
            \<lparr>text' = '') slides'', highlighted = False\<rparr>] \<and>
   concat (map text' [\<lparr>text' = ''Taka ('', highlighted = False\<rparr>,
                      \<lparr>text' = ''BDT'', highlighted = False\<rparr>,
                      \<lparr>text' = ''BDT'', highlighted = False\<rparr>,
                      \<lparr>text' = '') slides'', highlighted = False\<rparr>])
     = ''Taka (BDTBDT) slides'' \<and>
   splitHeadlineForHighlighting ''Taka (BDT slides'' [''(BDT'']  = Inl SyntaxError"
  by code_simp

lemma segmentation_example:
  "splitHeadlineForHighlighting ''Dhaka Port Expansion Begins'' [''Port Expansion'']
     = Inr [\<lparr>text' = ''Dhaka '', highlighted = False\<rparr>,
            \<lparr>text' = ''Port Expansion'', highlighted = True\<rparr>,
            \<lparr>text' = '' Begins'', highlighted = False\<rparr>]"
  by code_simp

text \<open>
  For phrases without parentheses and without the syntax characters outside the
  fragment, the pattern has the one group that the code writes around the phrases, and
  the texts of the segments, put together, are the headline.
\<close>

lemma alternative_group_free: "list_all group_free ts \<Longrightarrow> group_free (alternative ts)"
  by (induction ts) auto

lemma disjunction_group_free: "list_all group_free as \<Longrightarrow> group_free (disjunction as)"
  by (induction as rule: disjunction.induct) auto

lemma parse_pattern_plain:
  assumes "plain_phrase body" "list_all group_free alts" "list_all group_free terms"
  shows "\<exists>alts' terms'. list_all group_free alts' \<and> list_all group_free terms' \<and>
           parse_pattern (body @ rest) stack alts terms n = parse_pattern rest stack alts' terms' n"
  using assms
proof (induction body arbitrary: alts terms)
  case Nil
  then show ?case by auto
next
  case (Cons c cs)
  from Cons.prems(1) have c: "c \<noteq> CHR ''(''" "c \<noteq> CHR '')''" "\<not> isOtherSyntaxCharacter c"
    and cs: "plain_phrase cs"
    by (simp_all add: plain_phrase_def)
  show ?case
  proof (cases "c = CHR ''|''")
    case True
    have "list_all group_free (alts @ [alternative terms])"
      using Cons.prems by (simp add: alternative_group_free)
    from Cons.IH [OF cs this, of "[]"] True c show ?thesis by simp
  next
    case False
    have "list_all group_free (terms @ [Chr c])" using Cons.prems by simp
    from Cons.IH [OF cs Cons.prems(2) this] False c show ?thesis by simp
  qed
qed

lemma list_all_join:
  "list_all P sep \<Longrightarrow> list_all (list_all P) xs \<Longrightarrow> list_all P (join sep xs)"
  by (induction sep xs rule: join.induct) auto

lemma plain_phrase_join:
  assumes "list_all plain_phrase hws"
  shows "plain_phrase (join ''|'' hws)"
proof -
  let ?P = "\<lambda>c. c \<noteq> CHR ''('' \<and> c \<noteq> CHR '')'' \<and> \<not> isOtherSyntaxCharacter c"
  have "list_all ?P ''|''" by (simp add: isOtherSyntaxCharacter_def)
  moreover from assms have "list_all (list_all ?P) hws"
    by (simp add: plain_phrase_def [abs_def])
  ultimately have "list_all ?P (join ''|'' hws)" by (rule list_all_join)
  then show ?thesis by (simp add: plain_phrase_def)
qed

lemma new_RegExp_plain:
  assumes "list_all plain_phrase hws"
  shows "\<exists>d. group_free d \<and> highlightPattern hws = Pattern (Seq (Grp 1 d) Eps) 1"
proof -
  from parse_pattern_plain [OF plain_phrase_join [OF assms], of "[]" "[]" "'')''" "[([], [], 1)]" 1]
  obtain alts' terms' where gf: "list_all group_free alts'" "list_all group_free terms'"
    and p: "parse_pattern (join ''|'' hws @ '')'') [([], [], 1)] [] [] 1
              = parse_pattern '')'' [([], [], 1)] alts' terms' 1"
    by auto
  let ?d = "disjunction (alts' @ [alternative terms'])"
  have "group_free ?d" using gf by (simp add: disjunction_group_free alternative_group_free)
  moreover have "highlightPattern hws = Pattern (Seq (Grp 1 ?d) Eps) 1"
    using p by (simp add: highlightPattern_def new_RegExp_def)
  ultimately show ?thesis by blast
qed

lemma matches_group_free:
  "group_free r \<Longrightarrow> (e, caps') \<in> set (matches r s i caps) \<Longrightarrow> caps' = caps"
proof (induction r arbitrary: i caps e caps')
  case (Seq a b)
  then obtain j c where "(j, c) \<in> set (matches a s i caps)" "(e, caps') \<in> set (matches b s j c)"
    by auto
  with Seq show ?case by (metis group_free.simps(3))
qed (auto split: if_splits)

lemma exec_at_member:
  "exec_at r n s q = Some m \<Longrightarrow> m \<in> set (matches r s q (replicate n None))"
  by (auto simp: exec_at_def split: list.splits)

lemma exec_at_whole_match:
  assumes "group_free d" and "exec_at (Seq (Grp 1 d) Eps) 1 s q = Some (e, caps)"
  shows "caps = [Some (substring s q e)]"
proof -
  from exec_at_member [OF assms(2)]
  have "(e, caps) \<in> set (matches (Seq (Grp 1 d) Eps) s q [None])" by simp
  then obtain c where c: "(e, c) \<in> set (matches d s q [None])"
    and caps: "caps = c[0 := Some (substring s q e)]"
    by auto
  from matches_group_free [OF assms(1) c] have "c = [None]" .
  with caps show ?thesis by simp
qed

lemma truthy_parts_Cons:
  "concat (truthy_parts (Some x # ps)) = x @ concat (truthy_parts ps)"
  by (simp add: truthy_parts_def List.map_filter_simps)

lemma take_drop_between: "p \<le> q \<Longrightarrow> take (q - p) (drop p s) @ drop q s = drop p s"
proof -
  assume "p \<le> q"
  then have "drop q s = drop (q - p) (drop p s)" by simp
  then show ?thesis by (simp only: append_take_drop_id)
qed

lemma split_loop_roundtrip:
  assumes "\<And>q e caps. exec_at r n s q = Some (e, caps) \<Longrightarrow> caps = [Some (substring s q e)]"
    and "p \<le> q"
  shows "concat (truthy_parts (split_loop r n s p q)) = drop p s"
  using assms
proof (induction r n s p q rule: split_loop.induct)
  case (1 r n s p q)
  show ?case
  proof (cases "q < length s")
    case False
    then show ?thesis
      by (subst split_loop.simps) (simp add: truthy_parts_Cons substring_def truthy_parts_def List.map_filter_simps)
  next
    case True
    show ?thesis
    proof (cases "exec_at r n s q")
      case None
      with True "1.IH"(1) [OF True None "1.prems"(1)] "1.prems"(2) show ?thesis
        by (subst split_loop.simps) simp
    next
      case (Some m)
      obtain e0 caps where m: "m = (e0, caps)" by (cases m)
      let ?e = "min e0 (length s)"
      from Some m have ex: "exec_at r n s q = Some (e0, caps)" by simp
      then have caps: "caps = [Some (substring s q e0)]" by (rule "1.prems"(1))
      from ex have qe: "q \<le> e0" by (rule exec_at_end)
      show ?thesis
      proof (cases "?e = p")
        case same: True
        from "1.IH"(2) [OF True ex [unfolded m [symmetric]] _ _ same "1.prems"(1)] "1.prems"(2)
        have "concat (truthy_parts (split_loop r n s p (Suc q))) = drop p s"
          using m by simp
        with True ex same show ?thesis by (subst split_loop.simps) (simp add: Let_def)
      next
        case differ: False
        from "1.IH"(3) [OF True ex [unfolded m [symmetric]] _ _ differ "1.prems"(1)]
        have rest: "concat (truthy_parts (split_loop r n s ?e ?e)) = drop ?e s"
          using m by simp
        have sub: "substring s q e0 = substring s q ?e"
          by (simp add: substring_def min_def)
        have "concat (truthy_parts (split_loop r n s p q))
            = substring s p q @ substring s q ?e @ drop ?e s"
          using True ex differ rest
          by (subst split_loop.simps) (simp add: Let_def caps sub truthy_parts_Cons)
        also have "\<dots> = drop p s"
          using "1.prems"(2) qe True
          by (simp add: substring_def take_drop_between)
        finally show ?thesis .
      qed
    qed
  qed
qed

lemma segmentation_roundtrip_plain:
  assumes "list_all plain_phrase hws"
  shows "\<exists>parts. splitHeadlineForHighlighting hl hws = Inr parts \<and> concat (map text' parts) = hl"
proof (cases "hws = [] \<or> hd hws = []")
  case True
  then show ?thesis by (auto simp: splitHeadlineForHighlighting_def)
next
  case False
  from new_RegExp_plain [OF assms] obtain d where d: "group_free d"
    and re: "highlightPattern hws = Pattern (Seq (Grp 1 d) Eps) 1"
    by blast
  let ?r = "Seq (Grp 1 d) Eps"
  have "concat (truthy_parts (regex_split ?r 1 hl)) = hl"
  proof (cases "hl = []")
    case True
    then show ?thesis
      by (simp add: regex_split_def truthy_parts_def List.map_filter_simps split: option.splits)
  next
    case False
    have "concat (truthy_parts (split_loop ?r 1 hl 0 0)) = drop 0 hl"
    proof (rule split_loop_roundtrip)
      fix q e caps
      assume "exec_at ?r 1 hl q = Some (e, caps)"
      with d show "caps = [Some (substring hl q e)]" by (rule exec_at_whole_match)
    qed simp
    with False show ?thesis by (simp add: regex_split_def)
  qed
  with False re show ?thesis
    by (simp add: splitHeadlineForHighlighting_def comp_def)
qed

end
